theory Spec2Isabelle
  imports Complex_Main
begin

section \<open>Vectors\<close>

text \<open>
  The simulation stores positions, velocities and directions as three-component vectors of
  JavaScript numbers.  Numbers are modelled as reals, so rounding is not part of the model.
  The vector operations are the ones the source calls: \<open>add\<close>, \<open>sub\<close>,
  \<open>multiplyScalar\<close>, \<open>dot\<close>, \<open>length\<close>, \<open>lengthSq\<close>, \<open>distanceTo\<close>
  and \<open>normalize\<close>.  \<open>normalize\<close> divides by \<open>length() || 1\<close>: the zero vector
  stays the zero vector.
\<close>

record vec3 =
  vx :: real
  vy :: real
  vz :: real

definition Vector3 :: "real \<Rightarrow> real \<Rightarrow> real \<Rightarrow> vec3" where
  "Vector3 a b c = \<lparr>vx = a, vy = b, vz = c\<rparr>"

definition add :: "vec3 \<Rightarrow> vec3 \<Rightarrow> vec3" where
  "add a b = Vector3 (vx a + vx b) (vy a + vy b) (vz a + vz b)"

definition sub :: "vec3 \<Rightarrow> vec3 \<Rightarrow> vec3" where
  "sub a b = Vector3 (vx a - vx b) (vy a - vy b) (vz a - vz b)"

definition multiplyScalar :: "vec3 \<Rightarrow> real \<Rightarrow> vec3" where
  "multiplyScalar a s = Vector3 (vx a * s) (vy a * s) (vz a * s)"

definition dot :: "vec3 \<Rightarrow> vec3 \<Rightarrow> real" where
  "dot a b = vx a * vx b + vy a * vy b + vz a * vz b"

definition lengthSq :: "vec3 \<Rightarrow> real" where
  "lengthSq a = vx a * vx a + vy a * vy a + vz a * vz a"

definition vlength :: "vec3 \<Rightarrow> real" where
  "vlength a = sqrt (lengthSq a)"

definition distanceTo :: "vec3 \<Rightarrow> vec3 \<Rightarrow> real" where
  "distanceTo a b = vlength (sub a b)"

definition normalize :: "vec3 \<Rightarrow> vec3" where
  "normalize a = multiplyScalar a (1 / (if vlength a = 0 then 1 else vlength a))"

text \<open>
  \<open>Math.sign\<close> and \<open>Math.atan2\<close>.  The reals have one zero, JavaScript numbers have
  two: \<open>Math.atan2(0, -0)\<close> is \<open>\<pi>\<close> and \<open>Math.atan2(-0, -0)\<close> is \<open>-\<pi>\<close>, where
  \<open>atan2 0 0\<close> is \<open>0\<close>.  The two differ only in the yaw that \<open>bounce\<close>,
  \<open>enforceBoundary\<close> and \<open>killHuman\<close> compute from a vector whose \<open>x\<close> and \<open>z\<close>
  components are both zero, that is for a car or pedestrian bounced at a standstill; no
  property below reads the yaw in that case.
\<close>

definition sign :: "real \<Rightarrow> real" where
  "sign a = (if a > 0 then 1 else if a < 0 then -1 else 0)"

definition atan2 :: "real \<Rightarrow> real \<Rightarrow> real" where
  "atan2 b a =
     (if a > 0 then arctan (b / a)
      else if a < 0 then (if b \<ge> 0 then arctan (b / a) + pi else arctan (b / a) - pi)
      else if b > 0 then pi / 2
      else if b < 0 then - (pi / 2)
      else 0)"

section \<open>The car\<close>

text \<open>
  The tunables of \<open>Car\<close> are assigned once in the constructor and never written again;
  they are constants of the model.
\<close>

definition maxSpeed :: real where "maxSpeed = 40"
definition acceleration :: real where "acceleration = 25"
definition braking :: real where "braking = 35"
definition deceleration :: real where "deceleration = 8"
definition turnSpeed :: real where "turnSpeed = pi * 1.2"
definition turnInertia :: real where "turnInertia = 0.15"
definition boundingRadius :: real where "boundingRadius = 1.8"
definition bounceFactor :: real where "bounceFactor = 0.3"
definition gravity :: real where "gravity = 20"
definition driftThreshold :: real where "driftThreshold = 0.6"
definition driftMarkInterval :: real where "driftMarkInterval = 0.05"

subsection \<open>Steering intensity\<close>

text \<open>
  \<open>Car.getSteeringIntensity\<close>: a three-piece function of the normalized speed
  \<open>|speed| / maxSpeed\<close>.  \<open>steeringOfNormalized\<close> is the body of the method after the
  normalized speed has been computed.
\<close>

definition steeringOfNormalized :: "real \<Rightarrow> real" where
  "steeringOfNormalized normalizedSpeed =
     (if normalizedSpeed < 0.2 then 1.2
      else if normalizedSpeed < 0.6 then 1.0
      else 0.8 - (normalizedSpeed - 0.6) * 0.3)"

definition getSteeringIntensity :: "real \<Rightarrow> real" where
  "getSteeringIntensity speed = steeringOfNormalized (\<bar>speed\<bar> / maxSpeed)"

subsection \<open>Input, obstacles and collision detection\<close>

text \<open>
  The input handler is read through \<open>isKeyDown\<close> only, always as a pair of alternative
  keys: \<open>ArrowUp\<close> or \<open>w\<close>, \<open>ArrowDown\<close> or \<open>s\<close>, \<open>ArrowLeft\<close> or \<open>a\<close>,
  \<open>ArrowRight\<close> or \<open>d\<close>.  One flag stands for each pair.
\<close>

record input =
  keyUp :: bool
  keyDown :: bool
  keyLeft :: bool
  keyRight :: bool

text \<open>
  An obstacle carries its type tag, position and bounding radius.  Of its mesh the
  collision test reads \<open>geometry.parameters.width\<close>, \<open>geometry.parameters.depth\<close> and
  \<open>rotation.y\<close>; \<open>None\<close> stands for an obstacle without mesh, geometry or parameters,
  for which \<open>checkBoxCollision\<close> returns false.  Every obstacle the city creates has a
  position, so the \<open>!obstacle.position\<close> skip is never taken.
\<close>

record boxMesh =
  width :: real
  depth :: real
  meshRotationY :: real

record obstacle =
  otype :: string
  oposition :: vec3
  oboundingRadius :: real
  omesh :: "boxMesh option"

datatype collisionResult = NotColliding | Colliding obstacle "vec3 option"

definition nonZeroOr :: "real \<Rightarrow> real" where
  "nonZeroOr a = (if a \<noteq> 0 then a else 0.00001)"

definition lineIntersectsBox :: "vec3 \<Rightarrow> vec3 \<Rightarrow> vec3 \<Rightarrow> vec3 \<Rightarrow> bool" where
  "lineIntersectsBox start endp boxMin boxMax =
     (let len = vlength (sub endp start);
          direction = normalize (sub endp start);
          tMin = (vx boxMin - vx start) / nonZeroOr (vx direction);
          tMax = (vx boxMax - vx start) / nonZeroOr (vx direction);
          tYMin = (vy boxMin - vy start) / nonZeroOr (vy direction);
          tYMax = (vy boxMax - vy start) / nonZeroOr (vy direction);
          tMinFinal = max (min tMin tMax) (min tYMin tYMax);
          tMaxFinal = min (max tMin tMax) (max tYMin tYMax)
      in if tMaxFinal < 0 \<or> tMinFinal > tMaxFinal \<or> tMinFinal > len then False
         else
           (let tZMin = (vz boxMin - vz start) / nonZeroOr (vz direction);
                tZMax = (vz boxMax - vz start) / nonZeroOr (vz direction);
                tMinZ = max tMinFinal (min tZMin tZMax);
                tMaxZ = min tMaxFinal (max tZMin tZMax)
            in \<not> (tMaxZ < 0 \<or> tMinZ > tMaxZ \<or> tMinZ > len)))"

definition boxCorner :: "obstacle \<Rightarrow> real \<Rightarrow> real \<Rightarrow> real \<Rightarrow> vec3" where
  "boxCorner obstacle obstacleRotation cx cz =
     add (Vector3 (cx * cos obstacleRotation - cz * sin obstacleRotation) 0
                  (cx * sin obstacleRotation + cz * cos obstacleRotation))
         (oposition obstacle)"

definition checkBoxCollision :: "vec3 \<Rightarrow> obstacle \<Rightarrow> bool" where
  "checkBoxCollision pos obstacle =
     (case omesh obstacle of
        None \<Rightarrow> False
      | Some m \<Rightarrow>
         (let halfWidth = width m / 2;
              halfDepth = depth m / 2;
              boxMin = Vector3 (vx pos - boundingRadius) (vy pos - boundingRadius)
                         (vz pos - boundingRadius);
              boxMax = Vector3 (vx pos + boundingRadius) (vy pos + boundingRadius)
                         (vz pos + boundingRadius);
              obstacleRotation = meshRotationY m;
              c0 = boxCorner obstacle obstacleRotation (- halfWidth) (- halfDepth);
              c1 = boxCorner obstacle obstacleRotation halfWidth (- halfDepth);
              c2 = boxCorner obstacle obstacleRotation halfWidth halfDepth;
              c3 = boxCorner obstacle obstacleRotation (- halfWidth) halfDepth;
              relativePos = sub pos (oposition obstacle);
              rotatedX = vx relativePos * cos (- obstacleRotation)
                           + vz relativePos * sin (- obstacleRotation);
              rotatedZ = - vx relativePos * sin (- obstacleRotation)
                           + vz relativePos * cos (- obstacleRotation)
          in if lineIntersectsBox c0 c1 boxMin boxMax then True
             else if lineIntersectsBox c1 c2 boxMin boxMax then True
             else if lineIntersectsBox c2 c3 boxMin boxMax then True
             else if lineIntersectsBox c3 c0 boxMin boxMax then True
             else \<bar>rotatedX\<bar> < halfWidth \<and> \<bar>rotatedZ\<bar> < halfDepth))"

definition isBoxType :: "string \<Rightarrow> bool" where
  "isBoxType t \<longleftrightarrow>
     t = ''building'' \<or> t = ''skyscraper'' \<or> t = ''boundary'' \<or> t = ''stadium''"

fun checkCollisions :: "vec3 \<Rightarrow> obstacle list \<Rightarrow> collisionResult" where
  "checkCollisions pos [] = NotColliding"
| "checkCollisions pos (obstacle # rest) =
     (if isBoxType (otype obstacle) then
        (if checkBoxCollision pos obstacle
         then Colliding obstacle (Some (normalize (sub pos (oposition obstacle))))
         else checkCollisions pos rest)
      else if oboundingRadius obstacle \<noteq> 0 then
        (if distanceTo pos (oposition obstacle) < boundingRadius + oboundingRadius obstacle
         then Colliding obstacle (Some (normalize (sub pos (oposition obstacle))))
         else checkCollisions pos rest)
      else checkCollisions pos rest)"

subsection \<open>Ramps\<close>

text \<open>
  \<open>this.ramps\<close> holds two kinds of entries: directional ramps (\<open>createRamp\<close>, type
  \<open>'ramp'\<close>) and launchpads (\<open>createLaunchpad\<close>, type \<open>'launchpad'\<close>, always with
  \<open>omnidirectional: true\<close>).
\<close>

datatype ramp =
  Ramp (r_position: vec3) (r_rotation: real) (r_width: real) (r_length: real)
       (r_height: real) (r_jumpStrength: real)
| Launchpad (r_position: vec3) (r_radius: real) (r_height: real) (r_jumpStrength: real)

subsection \<open>Car state and \<open>Car.update\<close>\<close>

text \<open>
  \<open>rotation\<close> is the Euler triple (pitch \<open>x\<close>, yaw \<open>y\<close>, roll \<open>z\<close>).  The orientation
  quaternion, the meshes, the wheel spin and the drift marks are presentation: they are
  derived from the fields below and never read back by the simulation.
\<close>

record car =
  position :: vec3
  rotation :: vec3
  direction :: vec3
  velocity :: vec3
  speed :: real
  isAirborne :: bool
  verticalVelocity :: real
  onRamp :: bool
  rampHeight :: real
  currentRamp :: "ramp option"
  currentTurnAmount :: real
  lastValidPosition :: vec3
  colliding :: bool
  isDrifting :: bool
  lastDriftMarkTime :: real

text \<open>The state the \<open>Car\<close> constructor creates.\<close>

definition newCar :: car where
  "newCar =
     \<lparr>position = Vector3 0 0.5 0, rotation = Vector3 0 0 0, direction = Vector3 0 0 1,
      velocity = Vector3 0 0 0, speed = 0, isAirborne = False, verticalVelocity = 0,
      onRamp = False, rampHeight = 0, currentRamp = None, currentTurnAmount = 0,
      lastValidPosition = Vector3 0 0.5 0, colliding = False, isDrifting = False,
      lastDriftMarkTime = 0\<rparr>"

text \<open>
  \<open>new Vector3(0, 0, 1).applyEuler(rotation)\<close> with the default order \<open>XYZ\<close>: the third
  column of the rotation matrix of the Euler triple.
\<close>

definition forwardOfEuler :: "vec3 \<Rightarrow> vec3" where
  "forwardOfEuler r = Vector3 (sin (vy r)) (- (sin (vx r) * cos (vy r))) (cos (vx r) * cos (vy r))"

text \<open>Lines 492 to 495: remember the position as the last valid one.\<close>

definition storeLastValid :: "car \<Rightarrow> car" where
  "storeLastValid c = (if \<not> colliding c then c\<lparr>lastValidPosition := position c\<rparr> else c)"

text \<open>Lines 497 to 546: acceleration, braking, passive deceleration, air control.\<close>

definition airDrag :: "real \<Rightarrow> car \<Rightarrow> car" where
  "airDrag deltaTime c =
     (if speed c > 0 then c\<lparr>speed := max (speed c - deceleration * 0.1 * deltaTime) 0\<rparr>
      else if speed c < 0 then c\<lparr>speed := min (speed c + deceleration * 0.1 * deltaTime) 0\<rparr>
      else c)"

definition airRoll :: "input \<Rightarrow> real \<Rightarrow> car \<Rightarrow> car" where
  "airRoll inp deltaTime c =
     (if keyLeft inp then c\<lparr>rotation := (rotation c)\<lparr>vz := vz (rotation c) - 1.5 * deltaTime\<rparr>\<rparr>
      else if keyRight inp
      then c\<lparr>rotation := (rotation c)\<lparr>vz := vz (rotation c) + 1.5 * deltaTime\<rparr>\<rparr>
      else c)"

definition airPitch :: "input \<Rightarrow> real \<Rightarrow> car \<Rightarrow> car" where
  "airPitch inp deltaTime c =
     (if keyUp inp
      then c\<lparr>rotation := (rotation c)\<lparr>vx := min (vx (rotation c) + 0.8 * deltaTime) 0.5\<rparr>\<rparr>
      else if keyDown inp
      then c\<lparr>rotation := (rotation c)\<lparr>vx := max (vx (rotation c) - 0.8 * deltaTime) (- 0.5)\<rparr>\<rparr>
      else c)"

definition updateSpeed :: "input \<Rightarrow> real \<Rightarrow> car \<Rightarrow> car" where
  "updateSpeed inp deltaTime c =
     (if \<not> isAirborne c then
        (if keyUp inp then c\<lparr>speed := min (speed c + acceleration * deltaTime) maxSpeed\<rparr>
         else if keyDown inp
         then c\<lparr>speed := max (speed c - braking * deltaTime) (- maxSpeed / 2)\<rparr>
         else if speed c > 0 then c\<lparr>speed := max (speed c - deceleration * deltaTime) 0\<rparr>
         else if speed c < 0 then c\<lparr>speed := min (speed c + deceleration * deltaTime) 0\<rparr>
         else c)
      else airPitch inp deltaTime (airRoll inp deltaTime (airDrag deltaTime c)))"

text \<open>Lines 548 to 593: steering with turn inertia, drift detection, drift-mark timer.\<close>

definition steers :: "car \<Rightarrow> bool" where
  "steers c \<longleftrightarrow> \<bar>speed c\<bar> > 0.1 \<and> \<not> isAirborne c"

definition updateSteering :: "input \<Rightarrow> real \<Rightarrow> car \<Rightarrow> car" where
  "updateSteering inp deltaTime c =
     (if steers c then
        (let steeringIntensity = getSteeringIntensity (speed c);
             targetTurnAmount = (if keyLeft inp then 1 else if keyRight inp then - 1 else 0);
             turnAmount = currentTurnAmount c * (1 - turnInertia)
                            + targetTurnAmount * turnInertia;
             rot = (rotation c)\<lparr>vy := vy (rotation c)
                      + turnSpeed * deltaTime * steeringIntensity * turnAmount\<rparr>
         in c\<lparr>currentTurnAmount := turnAmount, rotation := rot,
               direction := forwardOfEuler rot\<rparr>)
      else c\<lparr>currentTurnAmount := currentTurnAmount c * (1 - turnInertia * 2)\<rparr>)"

definition createDriftMarks :: "real \<Rightarrow> car \<Rightarrow> car" where
  "createDriftMarks deltaTime c =
     (if lastDriftMarkTime c + deltaTime < driftMarkInterval
      then c\<lparr>lastDriftMarkTime := lastDriftMarkTime c + deltaTime\<rparr>
      else c\<lparr>lastDriftMarkTime := 0\<rparr>)"

definition updateDrift :: "input \<Rightarrow> real \<Rightarrow> car \<Rightarrow> car \<Rightarrow> car" where
  "updateDrift inp deltaTime before c =
     (let normalizedSpeed = \<bar>speed before\<bar> / maxSpeed;
          isTurning = steers before \<and> (keyLeft inp \<or> keyRight inp);
          drifting = isTurning \<and> normalizedSpeed > driftThreshold \<and> \<not> isAirborne c
                       \<and> \<not> onRamp c;
          c1 = c\<lparr>isDrifting := drifting\<rparr>
      in if drifting then createDriftMarks deltaTime c1 else c1)"

text \<open>
  Lines 595 to 599: the velocity and the candidate position.  \<open>carMoved\<close> is the car
  state at line 599, before collision detection.
\<close>

definition carMoved :: "input \<Rightarrow> real \<Rightarrow> car \<Rightarrow> car" where
  "carMoved inp deltaTime c =
     (let c1 = updateSpeed inp deltaTime (storeLastValid c);
          c2 = updateDrift inp deltaTime c1 (updateSteering inp deltaTime c1)
      in c2\<lparr>velocity := multiplyScalar (direction c2) (speed c2)\<rparr>)"

definition newPosition :: "real \<Rightarrow> car \<Rightarrow> vec3" where
  "newPosition deltaTime c = add (position c) (multiplyScalar (velocity c) deltaTime)"

text \<open>Lines 601 to 630: swept check when airborne and fast, endpoint check otherwise.\<close>

fun firstHit :: "(nat \<Rightarrow> collisionResult) \<Rightarrow> nat list \<Rightarrow> collisionResult" where
  "firstHit check [] = NotColliding"
| "firstHit check (i # rest) =
     (case check i of NotColliding \<Rightarrow> firstHit check rest | Colliding ob n \<Rightarrow> Colliding ob n)"

definition sweepCollisions :: "real \<Rightarrow> obstacle list \<Rightarrow> car \<Rightarrow> collisionResult" where
  "sweepCollisions deltaTime obstacles c =
     (let moveDir = normalize (sub (newPosition deltaTime c) (position c));
          moveDistance = distanceTo (position c) (newPosition deltaTime c);
          numSteps = max 3 (nat \<lceil>moveDistance / 2\<rceil>);
          stepDistance = moveDistance / real numSteps
      in firstHit
           (\<lambda>i. checkCollisions
                  (add (position c) (multiplyScalar moveDir (stepDistance * real i))) obstacles)
           [1 ..< Suc numSteps])"

definition detectCollision :: "real \<Rightarrow> obstacle list \<Rightarrow> car \<Rightarrow> collisionResult" where
  "detectCollision deltaTime obstacles c =
     (if isAirborne c \<and> speed c > 15 then sweepCollisions deltaTime obstacles c
      else checkCollisions (newPosition deltaTime c) obstacles)"

text \<open>Lines 632 to 693: commit the move, or bounce and reposition.\<close>

definition bounce :: "vec3 option \<Rightarrow> car \<Rightarrow> car" where
  "bounce collisionNormal c =
     (case collisionNormal of
        None \<Rightarrow> c\<lparr>speed := 0\<rparr>
      | Some n \<Rightarrow>
         (let impactSpeed = speed c;
              bounceDirection =
                normalize (sub (velocity c) (multiplyScalar n (2 * dot (velocity c) n)));
              c1 = c\<lparr>direction := bounceDirection, speed := \<bar>impactSpeed\<bar> * bounceFactor\<rparr>;
              c2 = (if \<bar>impactSpeed\<bar> > 10
                    then c1\<lparr>isAirborne := True,
                            verticalVelocity := 3 + min 5 (\<bar>impactSpeed\<bar> * 0.1)\<rparr>
                    else c1)
          in c2\<lparr>rotation := (rotation c2)\<lparr>vy := atan2 (vx (direction c2)) (vz (direction c2))\<rparr>\<rparr>))"

definition moveToSafePosition :: "obstacle \<Rightarrow> car \<Rightarrow> car" where
  "moveToSafePosition obstacle c =
     (if distanceTo (lastValidPosition c) (oposition obstacle)
           > boundingRadius + oboundingRadius obstacle
      then c\<lparr>position := lastValidPosition c\<rparr>
      else
        (let pushVector = normalize (sub (position c) (oposition obstacle));
             pushDistance = boundingRadius + oboundingRadius obstacle + 0.1
         in c\<lparr>position := add (oposition obstacle) (multiplyScalar pushVector pushDistance)\<rparr>))"

definition landOnObstacle :: "car \<Rightarrow> car" where
  "landOnObstacle c =
     (if isAirborne c \<and> verticalVelocity c < 0
      then c\<lparr>isAirborne := False, verticalVelocity := 0,
             rotation := (rotation c)\<lparr>vx := 0, vz := 0\<rparr>\<rparr>
      else c)"

definition resolveCollision :: "real \<Rightarrow> collisionResult \<Rightarrow> car \<Rightarrow> car" where
  "resolveCollision deltaTime collision c =
     (case collision of
        NotColliding \<Rightarrow> c\<lparr>colliding := False, position := newPosition deltaTime c\<rparr>
      | Colliding obstacle collisionNormal \<Rightarrow>
          landOnObstacle
            (moveToSafePosition obstacle (bounce collisionNormal (c\<lparr>colliding := True\<rparr>))))"

text \<open>Lines 695 to 741: gravity and landing, ground height, pitch on a ramp.\<close>

definition relax :: "real \<Rightarrow> real" where
  "relax a = (if \<bar>a\<bar> > 0.01 then a * 0.9 else 0)"

definition updateVertical :: "real \<Rightarrow> car \<Rightarrow> car" where
  "updateVertical deltaTime c =
     (if isAirborne c then
        (let v = verticalVelocity c - gravity * deltaTime;
             h = vy (position c) + v * deltaTime
         in if h \<le> 0.5
            then c\<lparr>verticalVelocity := 0, position := (position c)\<lparr>vy := 0.5\<rparr>,
                   isAirborne := False, speed := speed c * 0.7,
                   rotation := (rotation c)\<lparr>vx := vx (rotation c) * 0.5,
                                             vz := vz (rotation c) * 0.5\<rparr>\<rparr>
            else c\<lparr>verticalVelocity := v, position := (position c)\<lparr>vy := h\<rparr>\<rparr>)
      else if \<not> onRamp c then
        c\<lparr>position := (position c)\<lparr>vy := 0.5\<rparr>,
          rotation := (rotation c)\<lparr>vx := relax (vx (rotation c)),
                                    vz := relax (vz (rotation c))\<rparr>\<rparr>
      else
        (let targetPitch = - atan2 (rampHeight c) 8 * 0.5;
             pitchLerpFactor = 0.1
         in c\<lparr>rotation := (rotation c)\<lparr>vx := vx (rotation c) * (1 - pitchLerpFactor)
                                                + targetPitch * pitchLerpFactor\<rparr>\<rparr>))"

text \<open>
  \<open>carResolved\<close> is the car after the collision block (line 693); \<open>carUpdate\<close> is the
  whole of \<open>Car.update\<close>.
\<close>

definition carResolved :: "input \<Rightarrow> real \<Rightarrow> obstacle list \<Rightarrow> car \<Rightarrow> car" where
  "carResolved inp deltaTime obstacles c =
     (let c1 = carMoved inp deltaTime c
      in resolveCollision deltaTime (detectCollision deltaTime obstacles c1) c1)"

definition carUpdate :: "input \<Rightarrow> real \<Rightarrow> obstacle list \<Rightarrow> car \<Rightarrow> car" where
  "carUpdate inp deltaTime obstacles c =
     updateVertical deltaTime (carResolved inp deltaTime obstacles c)"

definition getSpeed :: "car \<Rightarrow> real" where
  "getSpeed c = \<bar>speed c\<bar>"

section \<open>The boost resource\<close>

text \<open>
  \<open>Game.setupSpeedBoost\<close> creates the single boost record.  \<open>updateBoost\<close> depletes it
  while the boost is active and something is left, and recharges it otherwise.  The key
  listeners switch \<open>active\<close>; \<open>Game.update\<close> moves \<open>currentMultiplier\<close> towards its
  target.
\<close>

record boost =
  available :: real
  bmax :: real
  rechargeRate :: real
  depleteRate :: real
  active :: bool
  speedMultiplier :: real
  currentMultiplier :: real
  transitionSpeed :: real

definition setupSpeedBoost :: boost where
  "setupSpeedBoost =
     \<lparr>available = 100, bmax = 100, rechargeRate = 10, depleteRate = 30, active = False,
      speedMultiplier = 1.8, currentMultiplier = 1.0, transitionSpeed = 2.0\<rparr>"

definition updateBoost :: "real \<Rightarrow> boost \<Rightarrow> boost" where
  "updateBoost deltaTime b =
     (if active b \<and> available b > 0
      then b\<lparr>available := max 0 (available b - depleteRate b * deltaTime)\<rparr>
      else b\<lparr>available := min (bmax b) (available b + rechargeRate b * deltaTime)\<rparr>)"

definition spaceKeyDown :: "boost \<Rightarrow> boost" where
  "spaceKeyDown b = (if available b > 0 then b\<lparr>active := True\<rparr> else b)"

definition spaceKeyUp :: "boost \<Rightarrow> boost" where
  "spaceKeyUp b = b\<lparr>active := False\<rparr>"

definition targetMultiplier :: "boost \<Rightarrow> real" where
  "targetMultiplier b = (if active b \<and> available b > 0 then speedMultiplier b else 1.0)"

definition stepMultiplier :: "real \<Rightarrow> boost \<Rightarrow> boost" where
  "stepMultiplier deltaTime b =
     b\<lparr>currentMultiplier :=
         currentMultiplier b
           + (targetMultiplier b - currentMultiplier b) * transitionSpeed b * deltaTime\<rparr>"

text \<open>The operations of the source that write a field of the boost record.\<close>

datatype boost_op = UpdateBoost real | SpaceDown | SpaceUp | StepMultiplier real

fun applyBoostOp :: "boost \<Rightarrow> boost_op \<Rightarrow> boost" where
  "applyBoostOp b (UpdateBoost deltaTime) = updateBoost deltaTime b"
| "applyBoostOp b SpaceDown = spaceKeyDown b"
| "applyBoostOp b SpaceUp = spaceKeyUp b"
| "applyBoostOp b (StepMultiplier deltaTime) = stepMultiplier deltaTime b"

fun opDelta :: "boost_op \<Rightarrow> real" where
  "opDelta (UpdateBoost deltaTime) = deltaTime"
| "opDelta (StepMultiplier deltaTime) = deltaTime"
| "opDelta SpaceDown = 0"
| "opDelta SpaceUp = 0"

definition boostInBounds :: "boost \<Rightarrow> bool" where
  "boostInBounds b \<longleftrightarrow> 0 \<le> available b \<and> available b \<le> bmax b"

definition boostRatesOk :: "boost \<Rightarrow> bool" where
  "boostRatesOk b \<longleftrightarrow> 0 \<le> rechargeRate b \<and> 0 \<le> depleteRate b"

section \<open>The game\<close>

subsection \<open>City, props, pedestrians and the game state\<close>

record road =
  roadCenter :: real
  roadWidthOf :: real

record city =
  citySize :: real
  blockSize :: real
  roadWidth :: real
  roadsHorizontal :: "road list"
  roadsVertical :: "road list"

definition totalSize :: "city \<Rightarrow> real" where
  "totalSize ct = citySize ct * blockSize ct + (citySize ct + 1) * roadWidth ct"

text \<open>
  A knockable prop.  \<open>pole\<close> is the radius of a streetlight's pole; \<open>resetTimer\<close> starts
  undefined in the source, where \<open>undefined > 60\<close> is false and \<open>undefined || 0\<close> is
  \<open>0\<close>, so it starts at \<open>0\<close> here.  The point light of a streetlight flickers on timers
  of the browser and is not part of the model.
\<close>

record physObj =
  ptype :: string
  p_position :: vec3
  p_rotation :: vec3
  originalPosition :: vec3
  originalRotation :: vec3
  p_velocity :: vec3
  angularVelocity :: vec3
  mass :: real
  radius :: real
  height :: real
  isKnockedOver :: bool
  resetTimer :: real
  pole :: "real option"

datatype humanState = Walking | Fleeing | Dead

record human =
  h_position :: vec3
  h_velocity :: vec3
  h_rotation :: real
  h_meshRotationY :: real
  walkSpeed :: real
  walkHorizontal :: bool
  state :: humanState
  runningFrom :: "vec3 option"
  fleeSpeed :: real
  detectionRadius :: real
  pointValue :: int
  isDead :: bool
  walkCycle :: real
  animSpeed :: real
  h_boundingRadius :: real

text \<open>
  \<open>rngIndex\<close> counts the calls of \<open>Math.random\<close> that decide simulation state; the
  values drawn are given by a function \<open>rnd\<close> of the call number.  \<open>composeEuler\<close> is the
  rotation update of a tumbling prop, computed by the three.js library as
  \<open>setFromQuaternion(setFromEuler(r) * setFromEuler(delta))\<close>; the library is not
  part of the repository, and the function is a parameter.
\<close>

record env =
  rnd :: "nat \<Rightarrow> real"
  composeEuler :: "vec3 \<Rightarrow> vec3 \<Rightarrow> vec3"

record game =
  gcar :: car
  gcity :: city
  obstacles :: "obstacle list"
  ramps :: "ramp list"
  physicsObjects :: "physObj list"
  humans :: "human list"
  gboost :: boost
  score :: int
  rngIndex :: nat

definition addScore :: "int \<Rightarrow> game \<Rightarrow> game" where
  "addScore points g = g\<lparr>score := score g + points\<rparr>"

subsection \<open>Boost applied to the car, lines 2620 to 2670 of \<open>Game.update\<close>\<close>

definition applyBoost :: "real \<Rightarrow> game \<Rightarrow> game" where
  "applyBoost deltaTime g =
     (let b = stepMultiplier deltaTime (gboost g);
          c = gcar g;
          c1 = (if currentMultiplier b > 1.01 then
                  (if isAirborne c then
                     (let maxAirborneSpeed = 25 in
                      if speed c < maxAirborneSpeed then
                        (let boostStrength = (currentMultiplier b - 1.0) / (speedMultiplier b - 1.0);
                             airborneAcceleration = 10 * boostStrength * deltaTime
                         in c\<lparr>speed := min (speed c + airborneAcceleration) maxAirborneSpeed\<rparr>)
                      else c)
                   else c\<lparr>speed := speed c * currentMultiplier b\<rparr>)
                else c)
      in g\<lparr>gboost := b, gcar := c1\<rparr>)"

subsection \<open>World boundary, lines 2672 to 2735 of \<open>Game.update\<close>\<close>

text \<open>
  \<open>carPosition\<close> is the vector \<open>this.car.getPosition()\<close> returns, which is a clone of the
  car's position.  \<open>clampToBounds\<close> is the value of that local variable after lines 2683
  to 2691; the source assigns it to the clone only and never copies it back to the car.
\<close>

definition boundLimit :: "city \<Rightarrow> real" where
  "boundLimit ct = totalSize ct / 2 - 10"

definition outOfBounds :: "city \<Rightarrow> vec3 \<Rightarrow> bool" where
  "outOfBounds ct p \<longleftrightarrow> \<bar>vx p\<bar> > boundLimit ct \<or> \<bar>vz p\<bar> > boundLimit ct"

definition clampToBounds :: "city \<Rightarrow> vec3 \<Rightarrow> vec3" where
  "clampToBounds ct carPosition =
     (let p1 = (if \<bar>vx carPosition\<bar> > boundLimit ct
                then carPosition\<lparr>vx := sign (vx carPosition) * boundLimit ct\<rparr>
                else carPosition)
      in if \<bar>vz p1\<bar> > boundLimit ct then p1\<lparr>vz := sign (vz p1) * boundLimit ct\<rparr> else p1)"

definition boundaryNormal :: "city \<Rightarrow> vec3 \<Rightarrow> vec3" where
  "boundaryNormal ct originalPos =
     normalize
       (Vector3 (if \<bar>vx originalPos\<bar> > boundLimit ct then - sign (vx originalPos) else 0) 0
                (if \<bar>vz originalPos\<bar> > boundLimit ct then - sign (vz originalPos) else 0))"

definition enforceBoundary :: "city \<Rightarrow> car \<Rightarrow> car" where
  "enforceBoundary ct c =
     (let carPosition = position c in
      if outOfBounds ct carPosition then
        (let n = boundaryNormal ct carPosition;
             dotProduct = dot (velocity c) n
         in if dotProduct < 0 then
              (let bounceVelocity =
                     normalize (sub (velocity c) (multiplyScalar n (2 * dotProduct)));
                   c1 = c\<lparr>direction := bounceVelocity, speed := speed c * 0.4,
                          rotation := (rotation c)\<lparr>vy := atan2 (vx bounceVelocity)
                                                                 (vz bounceVelocity)\<rparr>\<rparr>
               in if \<bar>speed c1\<bar> > 15 \<and> \<not> isAirborne c1
                  then c1\<lparr>isAirborne := True, verticalVelocity := 4\<rparr>
                  else c1)
            else c\<lparr>speed := speed c * 0.5\<rparr>)
      else c)"

subsection \<open>\<open>Game.checkRampInteractions\<close>\<close>

text \<open>
  The loop state: the car, and the locals \<open>onAnyRamp\<close>, \<open>currentRampHeight\<close> and
  \<open>currentRamp\<close>.  \<open>carPosition\<close>, \<open>carDirection\<close> and \<open>carSpeed\<close> are read once
  before the loop.
\<close>

record rampScan =
  scanCar :: car
  onAnyRamp :: bool
  currentRampHeight :: real
  scanRamp :: "ramp option"

definition onLaunchpad :: "vec3 \<Rightarrow> ramp \<Rightarrow> bool" where
  "onLaunchpad carPosition rmp =
     (let dx = vx carPosition - vx (r_position rmp);
          dz = vz carPosition - vz (r_position rmp)
      in dx * dx + dz * dz \<le> r_radius rmp * r_radius rmp)"

definition rideLaunchpad :: "vec3 \<Rightarrow> real \<Rightarrow> ramp \<Rightarrow> rampScan \<Rightarrow> rampScan" where
  "rideLaunchpad carPosition carSpeed rmp st =
     (let c = scanCar st;
          c1 =
            (if \<not> isAirborne c then
               (let c2 = c\<lparr>position := (position c)\<lparr>vy := 0.5 + r_height rmp\<rparr>\<rparr>;
                    c3 = (if carSpeed > 10 then c2\<lparr>speed := speed c2 * 1.02\<rparr> else c2);
                    dx = vx carPosition - vx (r_position rmp);
                    dz = vz carPosition - vz (r_position rmp);
                    normalizedDistance = sqrt (dx * dx + dz * dz) / r_radius rmp
                in if carSpeed > 5 \<and> \<not> isAirborne c3 then
                     (let centerBonus = 1 - normalizedDistance;
                          speedFactor = min 1 (carSpeed / 25);
                          maxJumpStrength = 22;
                          baseJumpStrength = min (r_jumpStrength rmp) maxJumpStrength;
                          launchStrength =
                            baseJumpStrength * speedFactor * (0.7 + centerBonus * 0.3);
                          c4 = c3\<lparr>isAirborne := True, verticalVelocity := launchStrength,
                                 rotation := (rotation c3)\<lparr>vx := - 0.2 - speedFactor * 0.3\<rparr>\<rparr>
                      in if carSpeed > 30 then c4\<lparr>speed := 30\<rparr>
                         else c4\<lparr>speed := speed c4 * 1.05\<rparr>)
                   else c3)
             else c)
      in st\<lparr>scanCar := c1, onAnyRamp := True, scanRamp := Some rmp\<rparr>)"

definition rampForward :: "ramp \<Rightarrow> vec3" where
  "rampForward rmp = Vector3 (sin (r_rotation rmp)) 0 (cos (r_rotation rmp))"

definition rampRight :: "ramp \<Rightarrow> vec3" where
  "rampRight rmp = Vector3 (cos (r_rotation rmp)) 0 (- sin (r_rotation rmp))"

definition onDirectionalRamp :: "vec3 \<Rightarrow> ramp \<Rightarrow> bool" where
  "onDirectionalRamp carPosition rmp =
     (let relativePos = sub carPosition (r_position rmp);
          forwardProjection = dot relativePos (rampForward rmp);
          rightProjection = dot relativePos (rampRight rmp)
      in \<bar>rightProjection\<bar> < r_width rmp / 2
         \<and> forwardProjection > - r_length rmp / 2
         \<and> forwardProjection < r_length rmp / 2)"

definition rideRamp :: "vec3 \<Rightarrow> vec3 \<Rightarrow> real \<Rightarrow> ramp \<Rightarrow> rampScan \<Rightarrow> rampScan" where
  "rideRamp carPosition carDirection carSpeed rmp st =
     (let forwardProjection = dot (sub carPosition (r_position rmp)) (rampForward rmp);
          normalizedPos = (forwardProjection + r_length rmp / 2) / r_length rmp;
          heightHere = normalizedPos * r_height rmp;
          c = scanCar st;
          c1 = (if \<not> isAirborne c then
                  (let c2 = c\<lparr>position := (position c)\<lparr>vy := 0.5 + heightHere\<rparr>\<rparr>
                   in if normalizedPos < 0.4 \<and> carSpeed > 15
                      then c2\<lparr>speed := speed c2 * 1.01\<rparr> else c2)
                else c);
          c3 = (if normalizedPos > 0.8 \<and> carSpeed > 10
                   \<and> dot carDirection (rampForward rmp) > 0.7 \<and> \<not> isAirborne c1
                then
                  (let jumpFactor = min 1 (carSpeed / 30);
                       maxJumpStrength = 20;
                       baseJumpStrength = min (r_jumpStrength rmp) maxJumpStrength;
                       jumpVelocity = baseJumpStrength * jumpFactor;
                       c4 = c1\<lparr>isAirborne := True, verticalVelocity := jumpVelocity,
                              rotation := (rotation c1)\<lparr>vx := - 0.3\<rparr>\<rparr>
                   in if carSpeed > 30 then c4\<lparr>speed := 30\<rparr>
                      else c4\<lparr>speed := speed c4 * 1.1\<rparr>)
                else c1)
      in st\<lparr>scanCar := c3, onAnyRamp := True, currentRampHeight := heightHere,
            scanRamp := Some rmp\<rparr>)"

text \<open>
  The \<open>for\<close> loop over \<open>this.ramps\<close>.  The launchpad branch ends with \<open>break\<close>; the
  directional branch does not, and the loop goes on to the next entry.
\<close>

fun scanRamps :: "vec3 \<Rightarrow> vec3 \<Rightarrow> real \<Rightarrow> ramp list \<Rightarrow> rampScan \<Rightarrow> rampScan" where
  "scanRamps carPosition carDirection carSpeed [] st = st"
| "scanRamps carPosition carDirection carSpeed (Launchpad p r h j # rest) st =
     (if onLaunchpad carPosition (Launchpad p r h j)
      then rideLaunchpad carPosition carSpeed (Launchpad p r h j) st
      else scanRamps carPosition carDirection carSpeed rest st)"
| "scanRamps carPosition carDirection carSpeed (Ramp p a w l h j # rest) st =
     scanRamps carPosition carDirection carSpeed rest
       (if onDirectionalRamp carPosition (Ramp p a w l h j)
        then rideRamp carPosition carDirection carSpeed (Ramp p a w l h j) st
        else st)"

definition checkRampInteractions :: "ramp list \<Rightarrow> car \<Rightarrow> car" where
  "checkRampInteractions rs c =
     (let st = scanRamps (position c) (direction c) (getSpeed c) rs
                 \<lparr>scanCar = c, onAnyRamp = False, currentRampHeight = 0, scanRamp = None\<rparr>;
          c1 = scanCar st;
          c2 = (if \<not> onAnyRamp st \<and> \<not> isAirborne c1
                then c1\<lparr>position := (position c1)\<lparr>vy := 0.5\<rparr>\<rparr> else c1)
      in c2\<lparr>onRamp := onAnyRamp st, rampHeight := currentRampHeight st,
            currentRamp := scanRamp st\<rparr>)"

text \<open>
  The footprint test of the loop for either kind of entry, and the kind of an entry (the
  flag \<open>omnidirectional\<close>).
\<close>

definition containsCar :: "vec3 \<Rightarrow> ramp \<Rightarrow> bool" where
  "containsCar carPosition rmp =
     (case rmp of
        Launchpad p r h j \<Rightarrow> onLaunchpad carPosition rmp
      | Ramp p a w l h j \<Rightarrow> onDirectionalRamp carPosition rmp)"



subsection \<open>Dynamic props: \<open>resetPhysicsObject\<close> and \<open>updatePhysicsObjects\<close>\<close>

text \<open>
  \<open>getRandomSidewalkPosition\<close> draws four random numbers, in this order: the road
  orientation, the road index, the side of the road, the coordinate along the road.
  Indexing the road array out of range yields \<open>undefined\<close> in the source and the read of
  its \<open>centerZ\<close> throws; that is the result \<open>None\<close>.
\<close>

definition getRandomSidewalkPosition :: "city \<Rightarrow> (nat \<Rightarrow> real) \<Rightarrow> nat \<Rightarrow> vec3 option" where
  "getRandomSidewalkPosition ct r k =
     (let isHorizontal = r k > 0.5;
          roadArray = (if isHorizontal then roadsHorizontal ct else roadsVertical ct);
          roadIndex = \<lfloor>r (k + 1) * real (length roadArray)\<rfloor>
      in if 0 \<le> roadIndex \<and> roadIndex < int (length roadArray) then
           (let rd = roadArray ! nat roadIndex;
                halfTotalSize = totalSize ct / 2;
                roadPos = roadCenter rd;
                offset = roadWidthOf rd / 2 + 1.5;
                sideOffset = (if r (k + 2) > 0.5 then 1 else - 1) * offset
            in if isHorizontal
               then Some (Vector3 (r (k + 3) * totalSize ct - halfTotalSize) 1 (roadPos + sideOffset))
               else Some (Vector3 (roadPos + sideOffset) 1 (r (k + 3) * totalSize ct - halfTotalSize)))
         else None)"

definition resetPhysicsObject :: "city \<Rightarrow> (nat \<Rightarrow> real) \<Rightarrow> nat \<Rightarrow> physObj \<Rightarrow> (physObj \<times> nat) option" where
  "resetPhysicsObject ct r k obj =
     (if ptype obj = ''trashCan'' then
        (case getRandomSidewalkPosition ct r k of
           None \<Rightarrow> None
         | Some newPos \<Rightarrow>
             Some (obj\<lparr>originalPosition := newPos, p_position := newPos,
                        p_rotation := originalRotation obj, p_velocity := Vector3 0 0 0,
                        angularVelocity := Vector3 0 0 0, isKnockedOver := False\<rparr>, k + 4))
      else
        Some (obj\<lparr>p_position := originalPosition obj, p_rotation := originalRotation obj,
                   p_velocity := Vector3 0 0 0, angularVelocity := Vector3 0 0 0,
                   isKnockedOver := False\<rparr>, k))"

definition knockoverThreshold :: "string \<Rightarrow> real" where
  "knockoverThreshold t =
     (if t = ''trashCan'' then 3
      else if t = ''bench'' then 7
      else if t = ''streetlight'' then 6
      else if t = ''barrel'' then 4
      else if t = ''crate'' then 5
      else 5)"

definition hitsProp :: "vec3 \<Rightarrow> physObj \<Rightarrow> bool" where
  "hitsProp carPosition obj =
     (if distanceTo carPosition (p_position obj) < boundingRadius + radius obj then True
      else if ptype obj = ''streetlight'' then
        (case pole obj of
           None \<Rightarrow> False
         | Some poleRadius \<Rightarrow>
             (let dx = vx carPosition - vx (p_position obj);
                  dz = vz carPosition - vz (p_position obj)
              in sqrt (dx * dx + dz * dz) < boundingRadius + poleRadius))
      else False)"

text \<open>The prop after it has been knocked over, lines 3126 to 3169, score aside.\<close>

definition knockOver :: "(nat \<Rightarrow> real) \<Rightarrow> nat \<Rightarrow> vec3 \<Rightarrow> real \<Rightarrow> vec3 \<Rightarrow> physObj \<Rightarrow> physObj" where
  "knockOver r k carPosition carSpeed carDirection obj =
     (let impactForce = carSpeed * 0.5;
          impulse0 = normalize (sub (p_position obj) carPosition);
          impulseDirection = normalize (impulse0\<lparr>vy := 0.5\<rparr>);
          v = add (multiplyScalar carDirection (carSpeed * 0.3))
                  (multiplyScalar impulseDirection impactForce);
          w = Vector3 ((r k - 0.5) * 5) ((r (k + 1) - 0.5) * 5) ((r (k + 2) - 0.5) * 5);
          v1 = (if ptype obj = ''streetlight'' then v
                else if ptype obj = ''barrel'' then v\<lparr>vy := vy v + 2\<rparr>
                else if ptype obj = ''crate''
                then Vector3 (vx v * 1.5) (vy v * 0.7) (vz v * 1.5)
                else v)
      in obj\<lparr>isKnockedOver := True, p_velocity := v1, angularVelocity := w\<rparr>)"

definition knockOverBonus :: "string \<Rightarrow> int" where
  "knockOverBonus t =
     (if t = ''streetlight'' then 0 else if t = ''barrel'' then 75
      else if t = ''crate'' then 60 else 0)"

text \<open>The motion of a knocked-over prop, lines 3179 to 3254.\<close>

definition tumble :: "(vec3 \<Rightarrow> vec3 \<Rightarrow> vec3) \<Rightarrow> real \<Rightarrow> physObj \<Rightarrow> physObj" where
  "tumble compose deltaTime obj =
     (let v0 = (p_velocity obj)\<lparr>vy := vy (p_velocity obj) - 20 * deltaTime\<rparr>;
          pos0 = add (p_position obj) (multiplyScalar v0 deltaTime);
          rot = compose (p_rotation obj) (multiplyScalar (angularVelocity obj) deltaTime);
          grounded = vy pos0 - height obj / 2 < 0;
          pos = (if grounded then pos0\<lparr>vy := height obj / 2\<rparr> else pos0);
          v1 = (if grounded then
                  (if \<bar>vy v0\<bar> > 0.5
                   then Vector3 (vx v0 * 0.9) (- vy v0 * 0.3) (vz v0 * 0.9)
                   else v0\<lparr>vy := 0\<rparr>)
                else v0);
          w1 = (if grounded then multiplyScalar (angularVelocity obj) 0.9
                else angularVelocity obj);
          v2 = multiplyScalar v1 0.98;
          w2 = multiplyScalar w1 0.98;
          horizontalSpeed = sqrt (vx v2 * vx v2 + vz v2 * vz v2);
          w3 = (if ptype obj \<noteq> ''streetlight'' \<and> ptype obj = ''barrel''
                   \<and> vy pos = height obj / 2 \<and> \<bar>vy v2\<bar> \<le> 0.5 \<and> horizontalSpeed > 0.1
                then
                  (let movementDir = normalize (Vector3 (vx v2) 0 (vz v2));
                       rollAxis = Vector3 (- vz movementDir) 0 (vx movementDir)
                   in multiplyScalar rollAxis (horizontalSpeed * 2))
                else w2)
      in obj\<lparr>p_position := pos, p_rotation := rot, p_velocity := v2, angularVelocity := w3\<rparr>)"

text \<open>
  One iteration of the loop of \<open>updatePhysicsObjects\<close>.  The game state carries the
  car (slowed down by a hit), the score and the random-number index.
\<close>

definition updatePhysicsObject ::
    "env \<Rightarrow> real \<Rightarrow> vec3 \<Rightarrow> real \<Rightarrow> vec3 \<Rightarrow> physObj \<Rightarrow> game \<Rightarrow> (physObj \<times> game) option" where
  "updatePhysicsObject e deltaTime carPosition carSpeed carDirection obj g =
     (if \<not> isKnockedOver obj then
        (if hitsProp carPosition obj \<and> carSpeed * 0.5 > knockoverThreshold (ptype obj) then
           (let g1 = addScore 50 g;
                obj1 = knockOver (rnd e) (rngIndex g1) carPosition carSpeed carDirection obj;
                g2 = g1\<lparr>rngIndex := rngIndex g1 + 3\<rparr>;
                g3 = (if knockOverBonus (ptype obj) \<noteq> 0
                      then addScore (knockOverBonus (ptype obj)) g2 else g2);
                carSlowdown = min 0.8 (mass obj / 100)
            in Some (obj1, g3\<lparr>gcar := (gcar g3)\<lparr>speed := speed (gcar g3) * (1 - carSlowdown)\<rparr>\<rparr>))
         else Some (obj, g))
      else
        (let obj1 = tumble (composeEuler e) deltaTime obj;
             isAtRest = lengthSq (p_velocity obj1) < 0.01 \<and> lengthSq (angularVelocity obj1) < 0.01;
             isOutOfBounds = \<bar>vx (p_position obj1)\<bar> > 500 \<or> \<bar>vz (p_position obj1)\<bar> > 500
         in if isAtRest \<or> isOutOfBounds \<or> resetTimer obj1 > 60 then
              (if distanceTo carPosition (p_position obj1) > 50 \<or> isOutOfBounds then
                 (case resetPhysicsObject (gcity g) (rnd e) (rngIndex g) obj1 of
                    None \<Rightarrow> None
                  | Some (obj2, k) \<Rightarrow> Some (obj2, g\<lparr>rngIndex := k\<rparr>))
               else Some (obj1, g))
            else Some (obj1\<lparr>resetTimer := resetTimer obj1 + deltaTime\<rparr>, g)))"

fun physicsLoop ::
    "env \<Rightarrow> real \<Rightarrow> vec3 \<Rightarrow> real \<Rightarrow> vec3 \<Rightarrow> physObj list \<Rightarrow> game \<Rightarrow> (physObj list \<times> game) option" where
  "physicsLoop e deltaTime carPosition carSpeed carDirection [] g = Some ([], g)"
| "physicsLoop e deltaTime carPosition carSpeed carDirection (obj # rest) g =
     (case updatePhysicsObject e deltaTime carPosition carSpeed carDirection obj g of
        None \<Rightarrow> None
      | Some (obj1, g1) \<Rightarrow>
          (case physicsLoop e deltaTime carPosition carSpeed carDirection rest g1 of
             None \<Rightarrow> None
           | Some (objs, g2) \<Rightarrow> Some (obj1 # objs, g2)))"

definition updatePhysicsObjects :: "env \<Rightarrow> real \<Rightarrow> game \<Rightarrow> game option" where
  "updatePhysicsObjects e deltaTime g =
     (case physicsLoop e deltaTime (position (gcar g)) (getSpeed (gcar g)) (direction (gcar g))
             (physicsObjects g) g of
        None \<Rightarrow> None
      | Some (objs, g1) \<Rightarrow> Some (g1\<lparr>physicsObjects := objs\<rparr>))"

subsection \<open>Pedestrians: \<open>updateHumans\<close>, \<open>updateWalkingHuman\<close>, \<open>killHuman\<close>\<close>

text \<open>JavaScript's \<open>%\<close> on numbers: the remainder has the sign of the dividend.\<close>

definition jsRemainder :: "real \<Rightarrow> real \<Rightarrow> real" where
  "jsRemainder a b =
     a - b * of_int (if a / b \<ge> 0 then \<lfloor>a / b\<rfloor> else \<lceil>a / b\<rceil>)"

definition normalizeAngle :: "real \<Rightarrow> real" where
  "normalizeAngle angleDiff = jsRemainder (angleDiff + pi) (pi * 2) - pi"

definition hitsBoundaryObstacle :: "obstacle list \<Rightarrow> real \<Rightarrow> vec3 \<Rightarrow> bool" where
  "hitsBoundaryObstacle obs r p \<longleftrightarrow>
     list_ex (\<lambda>ob. otype ob = ''boundary''
                  \<and> distanceTo p (oposition ob) < r + oboundingRadius ob) obs"

definition atBoundary :: "city \<Rightarrow> vec3 \<Rightarrow> bool" where
  "atBoundary ct p \<longleftrightarrow>
     \<bar>vx p\<bar> > totalSize ct / 2 - 5 \<or> \<bar>vz p\<bar> > totalSize ct / 2 - 5"

definition animateWalking :: "real \<Rightarrow> human \<Rightarrow> human" where
  "animateWalking deltaTime h = h\<lparr>walkCycle := walkCycle h + deltaTime * animSpeed h\<rparr>"

definition animateRunning :: "real \<Rightarrow> human \<Rightarrow> human" where
  "animateRunning deltaTime h = h\<lparr>walkCycle := walkCycle h + deltaTime * animSpeed h * 2\<rparr>"

definition killHuman :: "vec3 \<Rightarrow> human \<Rightarrow> game \<Rightarrow> human \<times> game" where
  "killHuman impactDirection h g =
     (if isDead h then (h, g)
      else (h\<lparr>isDead := True, state := Dead,
               h_meshRotationY := atan2 (vx impactDirection) (vz impactDirection)\<rparr>,
            addScore (pointValue h) g))"

definition pickWalkDirection :: "(nat \<Rightarrow> real) \<Rightarrow> nat \<Rightarrow> human \<Rightarrow> human" where
  "pickWalkDirection r k h =
     (let s = (if r k > 0.5 then 1 else - 1);
          v0 = (if walkHorizontal h then Vector3 s 0 0 else Vector3 0 0 s);
          v = multiplyScalar (normalize v0) (walkSpeed h)
      in h\<lparr>h_velocity := v, h_rotation := atan2 (vx v) (vz v),
            h_meshRotationY := atan2 (vx v) (vz v)\<rparr>)"

definition updateWalkingHuman ::
    "(nat \<Rightarrow> real) \<Rightarrow> city \<Rightarrow> obstacle list \<Rightarrow> real \<Rightarrow> human \<Rightarrow> nat \<Rightarrow> human \<times> nat" where
  "updateWalkingHuman r ct obs deltaTime h k =
     (let noDirection = lengthSq (h_velocity h) < 0.01;
          h1 = (if noDirection then pickWalkDirection r k h else h);
          k1 = (if noDirection then k + 1 else k);
          humanPos = h_position h1;
          newPos = add humanPos (multiplyScalar (h_velocity h1) deltaTime);
          collisionDetected = hitsBoundaryObstacle obs (h_boundingRadius h1) newPos;
          blocked = collisionDetected \<or> atBoundary ct newPos;
          k2 = (if blocked then k1 else k1 + 1);
          h2 =
            (if blocked \<or> r k1 < 0.01 then
               (let v = (if atBoundary ct newPos
                         then multiplyScalar (normalize (sub (Vector3 0 0 0) humanPos))
                                (walkSpeed h1)
                         else multiplyScalar (Vector3 (sin (r k2 * pi * 2)) 0
                                                  (cos (r k2 * pi * 2))) (walkSpeed h1));
                    rot = atan2 (vx v) (vz v)
                in h1\<lparr>h_velocity := v, h_rotation := rot,
                       h_meshRotationY := h_meshRotationY h1
                          + normalizeAngle (rot - h_meshRotationY h1) * 5 * deltaTime\<rparr>)
             else h1\<lparr>h_position := newPos\<rparr>);
          k3 = (if (blocked \<or> r k1 < 0.01) \<and> \<not> atBoundary ct newPos then k2 + 1 else k2)
      in (animateWalking deltaTime (h2\<lparr>h_position := (h_position h2)\<lparr>vy := 0\<rparr>\<rparr>), k3))"

text \<open>The fleeing branch, lines 3448 to 3529.\<close>

definition flee :: "city \<Rightarrow> obstacle list \<Rightarrow> real \<Rightarrow> vec3 \<Rightarrow> human \<Rightarrow> human" where
  "flee ct obs deltaTime carPosition h =
     (let humanPos = h_position h;
          fleeDirection = normalize (sub humanPos carPosition);
          v = multiplyScalar fleeDirection (fleeSpeed h);
          newPos = add humanPos (multiplyScalar v deltaTime);
          collisionDetected = hitsBoundaryObstacle obs (h_boundingRadius h) newPos;
          h1 =
            (if collisionDetected \<or> atBoundary ct newPos then
               (if atBoundary ct newPos then
                  (let tangentDir =
                         (if \<bar>vx newPos\<bar> > totalSize ct / 2 - 5
                          then Vector3 0 0 (sign (vz carPosition - vz humanPos) * - 1)
                          else Vector3 (sign (vx carPosition - vx humanPos) * - 1) 0 0);
                       v1 = multiplyScalar tangentDir (fleeSpeed h)
                   in h\<lparr>h_velocity := v1,
                         h_position := add humanPos (multiplyScalar v1 deltaTime)\<rparr>)
                else h\<lparr>h_velocity := v\<rparr>)
             else h\<lparr>h_velocity := v, h_position := newPos\<rparr>);
          targetAngle = atan2 (vx fleeDirection) (vz fleeDirection);
          rot = h_rotation h1 + normalizeAngle (targetAngle - h_rotation h1) * 5 * deltaTime
      in animateRunning deltaTime
           (h1\<lparr>h_position := (h_position h1)\<lparr>vy := 0\<rparr>, h_rotation := rot,
               h_meshRotationY := rot\<rparr>))"

text \<open>
  One call of the \<open>forEach\<close> callback of \<open>updateHumans\<close>.  \<open>carPosition\<close> and
  \<open>carSpeed\<close> are read once before the loop.
\<close>

definition groundPosition :: "human \<Rightarrow> vec3" where
  "groundPosition h = (h_position h)\<lparr>vy := 0\<rparr>"

definition updateHuman :: "env \<Rightarrow> real \<Rightarrow> vec3 \<Rightarrow> real \<Rightarrow> human \<Rightarrow> game \<Rightarrow> human \<times> game" where
  "updateHuman e deltaTime carPosition carSpeed h g =
     (if isDead h then (h, g)
      else
        (let h1 = h\<lparr>h_position := groundPosition h\<rparr>;
             humanPos = h_position h1;
             distanceToCar = distanceTo humanPos carPosition
         in if distanceToCar < boundingRadius + h_boundingRadius h1 \<and> carSpeed > 5
            then killHuman (normalize (sub carPosition humanPos)) h1 g
            else if distanceToCar > 500
            then (if state h1 = Walking then (animateWalking deltaTime h1, g) else (h1, g))
            else if state h1 = Walking then
              (if distanceToCar < detectionRadius h1
               then (h1\<lparr>state := Fleeing, runningFrom := Some carPosition\<rparr>, g)
               else (case updateWalkingHuman (rnd e) (gcity g) (obstacles g) deltaTime h1
                            (rngIndex g) of
                       (h2, k) \<Rightarrow> (h2, g\<lparr>rngIndex := k\<rparr>)))
            else if state h1 = Fleeing then
              (if distanceToCar < detectionRadius h1 * 1.5
               then (flee (gcity g) (obstacles g) deltaTime carPosition h1, g)
               else (h1\<lparr>state := Walking, h_velocity := Vector3 0 0 0\<rparr>, g))
            else (h1, g)))"

fun humansLoop :: "env \<Rightarrow> real \<Rightarrow> vec3 \<Rightarrow> real \<Rightarrow> human list \<Rightarrow> game \<Rightarrow> human list \<times> game" where
  "humansLoop e deltaTime carPosition carSpeed [] g = ([], g)"
| "humansLoop e deltaTime carPosition carSpeed (h # rest) g =
     (case updateHuman e deltaTime carPosition carSpeed h g of
        (h1, g1) \<Rightarrow>
          (case humansLoop e deltaTime carPosition carSpeed rest g1 of
             (hs, g2) \<Rightarrow> (h1 # hs, g2)))"

definition updateHumans :: "env \<Rightarrow> real \<Rightarrow> game \<Rightarrow> game" where
  "updateHumans e deltaTime g =
     (case humansLoop e deltaTime (position (gcar g)) (getSpeed (gcar g)) (humans g) g of
        (hs, g1) \<Rightarrow> g1\<lparr>humans := hs\<rparr>)"

subsection \<open>\<open>Game.update\<close>\<close>

text \<open>
  One tick for a given elapsed time and key state.  \<open>driveCar\<close> is the tick up to
  and including the call of \<open>checkRampInteractions\<close>; the props and the pedestrians
  follow.  The particle list, the camera, the speedometer and the renderer come last in
  the source; they read the state and do not write it.  \<open>None\<close> is a tick that threw
  in \<open>resetPhysicsObject\<close>.
\<close>

definition driveCar :: "input \<Rightarrow> real \<Rightarrow> game \<Rightarrow> game" where
  "driveCar inp deltaTime g =
     (let g1 = g\<lparr>gboost := updateBoost deltaTime (gboost g)\<rparr>;
          g2 = g1\<lparr>gcar := carUpdate inp deltaTime (obstacles g1) (gcar g1)\<rparr>;
          g3 = applyBoost deltaTime g2;
          g4 = g3\<lparr>gcar := enforceBoundary (gcity g3) (gcar g3)\<rparr>
      in g4\<lparr>gcar := checkRampInteractions (ramps g4) (gcar g4)\<rparr>)"

definition gameUpdate :: "env \<Rightarrow> input \<Rightarrow> real \<Rightarrow> game \<Rightarrow> game option" where
  "gameUpdate e inp deltaTime g =
     (case updatePhysicsObjects e deltaTime (driveCar inp deltaTime g) of
        None \<Rightarrow> None
      | Some g6 \<Rightarrow> Some (updateHumans e deltaTime g6))"

subsection \<open>The game loop\<close>

text \<open>
  Between two frames the key listeners may switch the boost.  A run of the game is a list
  of events, each a frame with its key state and elapsed time, or a press or release of
  the space bar.
\<close>

datatype event = Frame input real | SpacePressed | SpaceReleased

fun play :: "env \<Rightarrow> game \<Rightarrow> event list \<Rightarrow> game option" where
  "play e g [] = Some g"
| "play e g (Frame inp deltaTime # evs) =
     (case gameUpdate e inp deltaTime g of None \<Rightarrow> None | Some g1 \<Rightarrow> play e g1 evs)"
| "play e g (SpacePressed # evs) = play e (g\<lparr>gboost := spaceKeyDown (gboost g)\<rparr>) evs"
| "play e g (SpaceReleased # evs) = play e (g\<lparr>gboost := spaceKeyUp (gboost g)\<rparr>) evs"

section \<open>Concrete worlds\<close>

text \<open>
  The city of the source: a grid of 3 by 3 blocks of size 50 with roads of width 10, hence
  of total size 190, with four roads in each direction.  The playable rectangle reaches
  to 85 on both axes.
\<close>

definition sourceRoads :: "road list" where
  "sourceRoads =
     [\<lparr>roadCenter = - 95, roadWidthOf = 10\<rparr>, \<lparr>roadCenter = - 35, roadWidthOf = 10\<rparr>,
      \<lparr>roadCenter = 25, roadWidthOf = 10\<rparr>, \<lparr>roadCenter = 85, roadWidthOf = 10\<rparr>]"

definition sourceCity :: city where
  "sourceCity =
     \<lparr>citySize = 3, blockSize = 50, roadWidth = 10,
      roadsHorizontal = sourceRoads, roadsVertical = sourceRoads\<rparr>"

definition emptyWorld :: game where
  "emptyWorld =
     \<lparr>gcar = newCar, gcity = sourceCity, obstacles = [], ramps = [], physicsObjects = [],
      humans = [], gboost = setupSpeedBoost, score = 0, rngIndex = 0\<rparr>"

definition noKeys :: input where
  "noKeys = \<lparr>keyUp = False, keyDown = False, keyLeft = False, keyRight = False\<rparr>"

definition forwardKey :: input where
  "forwardKey = \<lparr>keyUp = True, keyDown = False, keyLeft = False, keyRight = False\<rparr>"

definition reverseKey :: input where
  "reverseKey = \<lparr>keyUp = False, keyDown = True, keyLeft = False, keyRight = False\<rparr>"

definition fixedEnv :: env where
  "fixedEnv = \<lparr>rnd = (\<lambda>n. 0.75), composeEuler = add\<rparr>"

text \<open>
  A car heading for the southern edge of the playable rectangle at full speed, and the
  same car a twentieth of a second later, after \<open>Game.update\<close> has bounced it.
\<close>

definition edgeCar :: car where
  "edgeCar = newCar\<lparr>position := Vector3 0 0.5 84, lastValidPosition := Vector3 0 0.5 84,
                      speed := 40\<rparr>"

definition edgeCarBounced :: car where
  "edgeCarBounced =
     edgeCar\<lparr>position := Vector3 0 0.5 86, rotation := Vector3 0 pi 0,
              direction := Vector3 0 0 (- 1), velocity := Vector3 0 0 40, speed := 16,
              isAirborne := True, verticalVelocity := 4\<rparr>"

definition carNearEdge :: game where
  "carNearEdge = emptyWorld\<lparr>gcar := edgeCar\<rparr>"

text \<open>
  A tree as \<open>createTree\<close> builds it (position on the ground, \<open>y = 0\<close>), thirty units
  from the centre \<open>(-57, 57)\<close> of the second open space, where
  \<open>addOpenSpaceDecorations\<close> plants its trees.
\<close>

definition parkTree :: obstacle where
  "parkTree =
     \<lparr>otype = ''tree'', oposition = Vector3 (- 27) 0 57, oboundingRadius = 1.5, omesh = None\<rparr>"

text \<open>
  A car in the air, coming down beside that tree at height \<open>3\<close>, and the same car a tenth
  of a second later, at height \<open>2.4\<close> and at distance \<open>3\<close> from the tree's position.
\<close>

definition fallingCar :: car where
  "fallingCar =
     newCar\<lparr>position := Vector3 (- 126 / 5) 3 56, lastValidPosition := Vector3 (- 126 / 5) 3 56,
            velocity := Vector3 0 0 (252 / 25), speed := 252 / 25, isAirborne := True,
            verticalVelocity := - 4\<rparr>"

definition canopyCar :: car where
  "canopyCar =
     fallingCar\<lparr>position := Vector3 (- 126 / 5) (12 / 5) 57, velocity := Vector3 0 0 10,
                 speed := 10, verticalVelocity := - 6\<rparr>"

text \<open>A tree as \<open>createTree\<close> builds it, three units ahead of the new car.\<close>

definition treeAhead :: obstacle where
  "treeAhead =
     \<lparr>otype = ''tree'', oposition = Vector3 0 0 3, oboundingRadius = 1.5, omesh = None\<rparr>"

definition approachingCar :: car where
  "approachingCar = newCar\<lparr>speed := 75 / 4\<rparr>"

text \<open>
  The new car driving straight on along \<open>z\<close>: at \<open>z\<close>, with last valid position at
  \<open>z0\<close>, velocity \<open>v\<close> along \<open>z\<close> and speed \<open>s\<close>.
\<close>

definition carOnZ :: "real \<Rightarrow> real \<Rightarrow> real \<Rightarrow> real \<Rightarrow> car" where
  "carOnZ z z0 v s =
     newCar\<lparr>position := Vector3 0 (1 / 2) z, lastValidPosition := Vector3 0 (1 / 2) z0,
            velocity := Vector3 0 0 v, speed := s\<rparr>"

text \<open>The boost record with a given charge, switch and current multiplier.\<close>

definition boostWith :: "real \<Rightarrow> bool \<Rightarrow> real \<Rightarrow> boost" where
  "boostWith a on m = setupSpeedBoost\<lparr>available := a, active := on, currentMultiplier := m\<rparr>"

text \<open>The empty world with a given car and boost record.\<close>

definition worldWith :: "car \<Rightarrow> boost \<Rightarrow> game" where
  "worldWith c b = emptyWorld\<lparr>gcar := c, gboost := b\<rparr>"

text \<open>A run: boost held for two frames of half a second, then everything released.\<close>

definition boostRun :: "event list" where
  "boostRun =
     [SpacePressed, Frame forwardKey (1 / 2), Frame forwardKey (1 / 2), SpaceReleased,
      Frame noKeys (1 / 2)]"

text \<open>
  The records \<open>createLaunchpad(x, z)\<close> and \<open>createRamp(x, z, rotation)\<close> push on
  \<open>this.ramps\<close>; \<open>angle\<close> is the parameter \<open>rotation\<close>.
\<close>

definition createLaunchpad :: "real \<Rightarrow> real \<Rightarrow> ramp" where
  "createLaunchpad x z = Launchpad (Vector3 x 0.3 z) 6 0.3 14"

definition createRamp :: "real \<Rightarrow> real \<Rightarrow> real \<Rightarrow> ramp" where
  "createRamp x z angle = Ramp (Vector3 x 0.5 z) angle 7 8 4 18"



text \<open>A trash can as \<open>createTrashCan\<close> builds it, standing untouched at the origin.\<close>

definition trashCanAtRest :: physObj where
  "trashCanAtRest =
     \<lparr>ptype = ''trashCan'', p_position = Vector3 0 1 0, p_rotation = Vector3 0 0 0,
      originalPosition = Vector3 0 1 0, originalRotation = Vector3 0 0 0,
      p_velocity = Vector3 0 0 0, angularVelocity = Vector3 0 0 0, mass = 20, radius = 0.8,
      height = 2, isKnockedOver = False, resetTimer = 0, pole = None\<rparr>"

definition barrelAtRest :: physObj where
  "barrelAtRest = trashCanAtRest\<lparr>ptype := ''barrel'', mass := 40\<rparr>"

text \<open>A walking pedestrian ten units east of the origin.\<close>

definition walker :: human where
  "walker =
     \<lparr>h_position = Vector3 10 0 0, h_velocity = Vector3 2 0 0, h_rotation = 0,
      h_meshRotationY = 0, walkSpeed = 2, walkHorizontal = True, state = Walking,
      runningFrom = None, fleeSpeed = 6, detectionRadius = 15, pointValue = 100,
      isDead = False, walkCycle = 0, animSpeed = 2, h_boundingRadius = 0.4\<rparr>"

text \<open>A pedestrian already fleeing, close to the origin.\<close>

definition runner :: human where
  "runner = walker\<lparr>h_position := Vector3 (6 / 5) 0 0, state := Fleeing\<rparr>"

text \<open>
  A pedestrian that has been run over, one standing where the car of \<open>carNearEdge\<close>
  arrives, and the world with both.
\<close>

definition corpse :: human where
  "corpse = walker\<lparr>isDead := True, state := Dead\<rparr>"

definition bystander :: human where
  "bystander = walker\<lparr>h_position := Vector3 0 0 85\<rparr>"

definition crowdNearEdge :: game where
  "crowdNearEdge = carNearEdge\<lparr>humans := [corpse, bystander]\<rparr>"

text \<open>Properties of a prop that has never been touched.\<close>

definition untouched :: "physObj \<Rightarrow> bool" where
  "untouched obj \<longleftrightarrow>
     p_position obj = originalPosition obj \<and> p_rotation obj = originalRotation obj
     \<and> p_velocity obj = Vector3 0 0 0 \<and> angularVelocity obj = Vector3 0 0 0
     \<and> \<not> isKnockedOver obj"

text \<open>The speed limits of the car.\<close>

definition withinSpeedLimits :: "real \<Rightarrow> bool" where
  "withinSpeedLimits s \<longleftrightarrow> - maxSpeed / 2 \<le> s \<and> s \<le> maxSpeed"

section \<open>Properties\<close>

lemmas vec_defs = Vector3_def add_def sub_def multiplyScalar_def dot_def lengthSq_def vlength_def
  distanceTo_def normalize_def
lemmas car_consts = maxSpeed_def acceleration_def braking_def deceleration_def turnSpeed_def
  turnInertia_def boundingRadius_def bounceFactor_def gravity_def driftThreshold_def driftMarkInterval_def

subsection \<open>Steering intensity\<close>

lemma steering_at_zero: "getSteeringIntensity 0 = 1.2"
  by (simp add: getSteeringIntensity_def steeringOfNormalized_def maxSpeed_def)

lemma steering_mono:
  "0.2 \<le> a \<Longrightarrow> a \<le> b \<Longrightarrow> steeringOfNormalized b \<le> steeringOfNormalized a"
  unfolding steeringOfNormalized_def by (auto simp: field_simps)

lemma steering_cont_mid: "continuous_on {0.2..<0.6} steeringOfNormalized"
proof -
  have "continuous_on {0.2..<0.6::real} (\<lambda>s. 1.0::real)" by (rule continuous_on_const)
  moreover have "\<forall>s \<in> {0.2..<0.6}. steeringOfNormalized s = 1.0"
    by (simp add: steeringOfNormalized_def)
  ultimately show ?thesis using continuous_on_cong [OF refl, of "{0.2..<0.6}" steeringOfNormalized "\<lambda>s. 1.0"] by blast
qed

lemma steering_cont_high: "continuous_on {0.6..1} steeringOfNormalized"
proof -
  have "continuous_on {0.6..1::real} (\<lambda>s. 0.8 - (s - 0.6) * 0.3 :: real)"
    by (intro continuous_intros)
  moreover have "\<forall>s \<in> {0.6..1}. steeringOfNormalized s = 0.8 - (s - 0.6) * 0.3"
    by (simp add: steeringOfNormalized_def)
  ultimately show ?thesis
    using continuous_on_cong [OF refl, of "{0.6..1}" steeringOfNormalized "\<lambda>s. 0.8 - (s - 0.6) * 0.3"] by blast
qed

text \<open>
  C4 (as stated): on \<open>[0.2, 1.0]\<close> the steering intensity is continuous.  It is not:
  it drops from \<open>1.0\<close> to \<open>0.8\<close> at normalized speed \<open>0.6\<close>, so it never takes the
  value \<open>0.9\<close> between its values at \<open>0.2\<close> and at \<open>1\<close>.
\<close>

theorem steering_not_continuous:
  "\<not> continuous_on {0.2..1} steeringOfNormalized"
proof
  assume c: "continuous_on {0.2..1} steeringOfNormalized"
  have "\<exists>s\<ge>0.2. s \<le> 1 \<and> steeringOfNormalized s = 0.9"
  proof (rule IVT2')
    show "steeringOfNormalized 1 \<le> 0.9" by (simp add: steeringOfNormalized_def)
    show "0.9 \<le> steeringOfNormalized 0.2" by (simp add: steeringOfNormalized_def)
    show "(0.2::real) \<le> 1" by simp
    show "continuous_on {0.2..1} steeringOfNormalized" by (rule c)
  qed
  then obtain s where "0.2 \<le> s" "s \<le> 1" "steeringOfNormalized s = 0.9" by blast
  then show False by (auto simp: steeringOfNormalized_def split: if_splits)
qed

text \<open>
  C4 (amended): the steering intensity is exactly \<open>1.2\<close> at speed \<open>0\<close>; as a function
  of the normalized speed \<open>s\<close> it is \<open>1.2\<close> for \<open>s < 0.2\<close>, \<open>1.0\<close> for
  \<open>0.2 \<le> s < 0.6\<close> and \<open>0.8 - (s - 0.6) * 0.3\<close> for \<open>s \<ge> 0.6\<close>; on
  \<open>[0.2, 1.0]\<close> it is monotonically non-increasing, and it is continuous on
  \<open>[0.2, 0.6)\<close> and on \<open>[0.6, 1.0]\<close> (the only jump is at \<open>0.6\<close>).
\<close>

theorem steering_piecewise_monotone:
  "getSteeringIntensity 0 = 1.2 \<and>
   (\<forall>s. s < 0.2 \<longrightarrow> steeringOfNormalized s = 1.2) \<and>
   (\<forall>s. 0.2 \<le> s \<and> s < 0.6 \<longrightarrow> steeringOfNormalized s = 1.0) \<and>
   (\<forall>s. 0.6 \<le> s \<longrightarrow> steeringOfNormalized s = 0.8 - (s - 0.6) * 0.3) \<and>
   (\<forall>a b. 0.2 \<le> a \<and> a \<le> b \<and> b \<le> 1 \<longrightarrow> steeringOfNormalized b \<le> steeringOfNormalized a) \<and>
   continuous_on {0.2..<0.6} steeringOfNormalized \<and>
   continuous_on {0.6..1} steeringOfNormalized"
  using steering_at_zero steering_mono steering_cont_mid steering_cont_high
  by (simp add: steeringOfNormalized_def)

theorem steering_piecewise_monotone_witness:
  "steeringOfNormalized 0.1 = 1.2 \<and> steeringOfNormalized 0.3 = 1.0 \<and>
   steeringOfNormalized 1 = 0.68 \<and> steeringOfNormalized 0.9 \<le> steeringOfNormalized 0.5"
proof -
  note t = steering_piecewise_monotone
  have 1: "steeringOfNormalized 0.1 = 1.2" using t by simp
  have 2: "steeringOfNormalized 0.3 = 1.0" using t by simp
  have 3: "steeringOfNormalized 1 = 0.68" using t by simp
  have 4: "steeringOfNormalized 0.9 \<le> steeringOfNormalized 0.5"
  proof -
    from t have "\<forall>a b. 0.2 \<le> a \<and> a \<le> b \<and> b \<le> 1 \<longrightarrow> steeringOfNormalized b \<le> steeringOfNormalized a"
      by blast
    then show ?thesis by simp
  qed
  from 1 2 3 4 show ?thesis by simp
qed

subsection \<open>Boost bounds\<close>

lemma updateBoost_keeps_rates:
  "boostRatesOk (applyBoostOp b op) = boostRatesOk b"
  by (cases op)
    (simp_all add: boostRatesOk_def updateBoost_def spaceKeyDown_def spaceKeyUp_def
      stepMultiplier_def)

lemma applyBoostOp_in_bounds:
  assumes "boostInBounds b" and "boostRatesOk b" and "0 \<le> opDelta op"
  shows "boostInBounds (applyBoostOp b op)"
proof (cases op)
  case (UpdateBoost dt)
  with assms have dt: "0 \<le> dt" by simp
  from assms(2) dt have r: "0 \<le> rechargeRate b * dt" and d: "0 \<le> depleteRate b * dt"
    by (simp_all add: boostRatesOk_def)
  from assms(1) r d show ?thesis
    unfolding UpdateBoost by (auto simp: boostInBounds_def updateBoost_def)
next
  case SpaceDown
  with assms(1) show ?thesis by (simp add: boostInBounds_def spaceKeyDown_def)
next
  case SpaceUp
  with assms(1) show ?thesis by (simp add: boostInBounds_def spaceKeyUp_def)
next
  case (StepMultiplier dt)
  with assms(1) show ?thesis by (simp add: boostInBounds_def stepMultiplier_def)
qed

lemma foldl_boost_in_bounds:
  "boostInBounds b \<Longrightarrow> boostRatesOk b \<Longrightarrow> (\<forall>op \<in> set ops. 0 \<le> opDelta op)
     \<Longrightarrow> boostInBounds (foldl applyBoostOp b ops) \<and> boostRatesOk (foldl applyBoostOp b ops)"
proof (induction ops arbitrary: b)
  case Nil
  then show ?case by simp
next
  case (Cons op ops)
  have "boostInBounds (applyBoostOp b op)"
    using Cons.prems by (intro applyBoostOp_in_bounds) simp_all
  moreover have "boostRatesOk (applyBoostOp b op)"
    using Cons.prems(2) by (simp add: updateBoost_keeps_rates)
  ultimately show ?case using Cons.IH Cons.prems(3) by simp
qed

text \<open>
  C9: the boost resource stays within bounds.  Starting from the record that
  \<open>setupSpeedBoost\<close> creates, after any sequence of the operations that write the boost
  record (with every \<open>deltaTime \<ge> 0\<close>), \<open>0 \<le> available \<le> max\<close> holds, and it holds
  again after a further \<open>updateBoost\<close> with \<open>deltaTime \<ge> 0\<close>, whether or not the boost
  is active.
\<close>

theorem boost_always_in_bounds:
  assumes "\<forall>op \<in> set ops. 0 \<le> opDelta op" and "0 \<le> deltaTime"
  shows "boostInBounds (foldl applyBoostOp setupSpeedBoost ops)
       \<and> boostInBounds (updateBoost deltaTime (foldl applyBoostOp setupSpeedBoost ops))"
proof -
  have init: "boostInBounds setupSpeedBoost" "boostRatesOk setupSpeedBoost"
    by (simp_all add: boostInBounds_def boostRatesOk_def setupSpeedBoost_def)
  have a: "boostInBounds (foldl applyBoostOp setupSpeedBoost ops)"
   and r: "boostRatesOk (foldl applyBoostOp setupSpeedBoost ops)"
    using foldl_boost_in_bounds [OF init assms(1)] by simp_all
  have "boostInBounds (applyBoostOp (foldl applyBoostOp setupSpeedBoost ops) (UpdateBoost deltaTime))"
    using a r assms(2) by (intro applyBoostOp_in_bounds) simp_all
  with a show ?thesis by simp
qed

theorem boost_always_in_bounds_witness:
  "available (foldl applyBoostOp setupSpeedBoost [SpaceDown, UpdateBoost 1, UpdateBoost 5, SpaceUp, StepMultiplier 1]) = 0
   \<and> available (updateBoost 20 (foldl applyBoostOp setupSpeedBoost
        [SpaceDown, UpdateBoost 1, UpdateBoost 5, SpaceUp, StepMultiplier 1])) = 100
   \<and> boostInBounds (updateBoost 20 (foldl applyBoostOp setupSpeedBoost
        [SpaceDown, UpdateBoost 1, UpdateBoost 5, SpaceUp, StepMultiplier 1]))"
  using boost_always_in_bounds [of "[SpaceDown, UpdateBoost 1, UpdateBoost 5, SpaceUp, StepMultiplier 1]" 20]
  by (simp add: setupSpeedBoost_def updateBoost_def spaceKeyDown_def spaceKeyUp_def stepMultiplier_def)

subsection \<open>Resetting a prop\<close>

text \<open>
  C8 (as stated): resetting an untouched prop changes nothing, for every prop type.  For
  a trash can it does not hold: \<open>resetPhysicsObject\<close> moves a trash can to a new random
  sidewalk position.  With every random draw equal to \<open>0.75\<close> in the city of the source,
  the untouched trash can at \<open>(0, 1, 0)\<close> ends at \<open>(47.5, 1, 91.5)\<close>.
\<close>

theorem reset_moves_untouched_trash_can:
  "untouched trashCanAtRest
   \<and> map_option (\<lambda>(obj, k). p_position obj) (resetPhysicsObject sourceCity (\<lambda>n. 0.75) 0 trashCanAtRest)
       = Some (Vector3 47.5 1 91.5)
   \<and> p_position trashCanAtRest = Vector3 0 1 0"
  by (simp add: untouched_def trashCanAtRest_def resetPhysicsObject_def getRandomSidewalkPosition_def
      sourceCity_def sourceRoads_def totalSize_def Vector3_def Let_def)

text \<open>
  C8 (amended): for every prop type other than the trash can, resetting a prop that is at
  its original position and rotation, has zero velocity and zero angular velocity and was
  never knocked over returns the prop as it was (position, rotation, velocity and angular
  velocity unchanged) and draws no random number.
\<close>

theorem reset_untouched_prop_unchanged:
  assumes "untouched obj" and "ptype obj \<noteq> ''trashCan''"
  shows "resetPhysicsObject ct r k obj = Some (obj, k)"
  using assms by (simp add: resetPhysicsObject_def untouched_def)

theorem reset_untouched_prop_unchanged_witness:
  "resetPhysicsObject sourceCity (\<lambda>n. 0.75) 0 barrelAtRest = Some (barrelAtRest, 0)
   \<and> p_position barrelAtRest = Vector3 0 1 0"
proof -
  have u: "untouched barrelAtRest"
    by (simp add: untouched_def barrelAtRest_def trashCanAtRest_def)
  have t: "ptype barrelAtRest \<noteq> ''trashCan''"
    by (simp add: barrelAtRest_def trashCanAtRest_def)
  from reset_untouched_prop_unchanged [OF u t, of sourceCity "\<lambda>n. 0.75" 0]
  show ?thesis by (simp add: barrelAtRest_def trashCanAtRest_def)
qed

subsection \<open>Ramps\<close>

lemma onAnyRamp_rideLaunchpad: "onAnyRamp (rideLaunchpad p s r st)"
  and scanRamp_rideLaunchpad: "scanRamp (rideLaunchpad p s r st) = Some r"
  by (simp_all add: rideLaunchpad_def Let_def)

lemma onAnyRamp_rideRamp: "onAnyRamp (rideRamp p d s r st)"
  and scanRamp_rideRamp: "scanRamp (rideRamp p d s r st) = Some r"
  by (simp_all add: rideRamp_def Let_def)


lemma find_no_match:
  "list_all (\<lambda>q. \<not> containsCar p q) rs \<Longrightarrow> find (containsCar p) rs = None"
  by (induction rs) simp_all









text \<open>
  The condition on directional ramps is needed.  The directional branch has no \<open>break\<close>:
  were two ramps of \<open>createRamp\<close> to overlap under the car, both would be applied and
  the later one would stay as current ramp.  \<open>createRamps\<close>, if it were called, would
  place its four ramps far apart.
\<close>

lemma overlapping_directional_ramps:
  "onDirectionalRamp (position newCar) (createRamp 0 0 0)
   \<and> onDirectionalRamp (position newCar) (createRamp 0 1 0)
   \<and> currentRamp (checkRampInteractions [createRamp 0 0 0, createRamp 0 1 0] newCar)
       = Some (createRamp 0 1 0)
   \<and> rampHeight (checkRampInteractions [createRamp 0 0 0, createRamp 0 1 0] newCar) = 3 / 2"
  by (simp add: checkRampInteractions_def createRamp_def newCar_def onDirectionalRamp_def
      rideRamp_def rampForward_def rampRight_def getSpeed_def vec_defs Let_def)

subsection \<open>Vector facts\<close>

lemma sqrt_less_iff_square: "0 < b \<Longrightarrow> (sqrt a < b) = (a < b * b)"
proof -
  assume b: "0 < b"
  then have "sqrt (b * b) = b" by simp
  then have "(sqrt a < b) = (sqrt a < sqrt (b * b))" by simp
  also have "\<dots> = (a < b * b)" by (rule real_sqrt_less_iff)
  finally show ?thesis .
qed

lemma sqrt_le_iff_square: "0 \<le> b \<Longrightarrow> (sqrt a \<le> b) = (a \<le> b * b)"
proof -
  assume b: "0 \<le> b"
  then have "sqrt (b * b) = b" by simp
  then have "(sqrt a \<le> b) = (sqrt a \<le> sqrt (b * b))" by simp
  also have "\<dots> = (a \<le> b * b)" by (rule real_sqrt_le_iff)
  finally show ?thesis .
qed

lemma vlength_zero_iff: "vlength a = 0 \<longleftrightarrow> a = Vector3 0 0 0"
proof -
  have "vx a * vx a + vy a * vy a + vz a * vz a = 0 \<longleftrightarrow> vx a = 0 \<and> vy a = 0 \<and> vz a = 0"
    by (simp add: add_nonneg_eq_0_iff)
  then show ?thesis
    by (cases a) (auto simp: vlength_def lengthSq_def Vector3_def)
qed

lemma vlength_multiplyScalar: "vlength (multiplyScalar a s) = \<bar>s\<bar> * vlength a"
proof -
  have "lengthSq (multiplyScalar a s) = (s * s) * lengthSq a"
    by (simp add: lengthSq_def multiplyScalar_def Vector3_def algebra_simps)
  then show ?thesis
    by (simp add: vlength_def real_sqrt_mult)
qed

lemma vlength_normalize: "a \<noteq> Vector3 0 0 0 \<Longrightarrow> vlength (normalize a) = 1"
proof -
  assume "a \<noteq> Vector3 0 0 0"
  then have nz: "vlength a \<noteq> 0" by (simp add: vlength_zero_iff)
  have pos: "0 \<le> vlength a" by (simp add: vlength_def lengthSq_def)
  from nz pos show ?thesis
    by (simp add: normalize_def vlength_multiplyScalar)
qed

lemma sub_zero_iff: "sub a b = Vector3 0 0 0 \<longleftrightarrow> a = b"
  by (cases a, cases b) (auto simp: sub_def Vector3_def)

lemma distanceTo_add_left: "distanceTo (add b w) b = vlength w"
proof -
  have "sub (add b w) b = w" by (cases w) (simp add: sub_def add_def Vector3_def)
  then show ?thesis by (simp add: distanceTo_def)
qed

subsection \<open>Collision resolution\<close>

text \<open>Every collision that \<open>Car.update\<close> detects comes with a normal.\<close>

lemma checkCollisions_normal:
  "checkCollisions p obs = Colliding ob cn \<Longrightarrow> cn = Some (normalize (sub p (oposition ob)))"
  by (induction obs) (auto split: if_splits)

lemma firstHit_normal:
  assumes "firstHit f is = Colliding ob cn"
    and "\<And>i ob cn. f i = Colliding ob cn \<Longrightarrow> cn \<noteq> None"
  shows "cn \<noteq> None"
  using assms(1)
proof (induction "is")
  case Nil
  then show ?case by simp
next
  case (Cons i "is")
  show ?case
  proof (cases "f i")
    case NotColliding
    with Cons show ?thesis by simp
  next
    case (Colliding ob' cn')
    with Cons.prems have "cn = cn'" by simp
    with assms(2) [OF Colliding] show ?thesis by simp
  qed
qed

lemma detectCollision_normal:
  assumes "detectCollision dt obs c = Colliding ob cn"
  shows "cn \<noteq> None"
proof (cases "isAirborne c \<and> speed c > 15")
  case True
  with assms have "sweepCollisions dt obs c = Colliding ob cn" by (simp add: detectCollision_def)
  then show ?thesis
    unfolding sweepCollisions_def Let_def
    by (rule firstHit_normal) (auto dest: checkCollisions_normal)
next
  case False
  with assms have "checkCollisions (newPosition dt c) obs = Colliding ob cn"
    by (auto simp add: detectCollision_def split: if_splits)
  then show ?thesis by (auto dest: checkCollisions_normal)
qed

lemma position_storeLastValid: "position (storeLastValid c) = position c"
  by (simp add: storeLastValid_def)

lemma position_airDrag: "position (airDrag dt c) = position c"
  by (simp add: airDrag_def)

lemma position_airRoll: "position (airRoll inp dt c) = position c"
  by (simp add: airRoll_def)

lemma position_airPitch: "position (airPitch inp dt c) = position c"
  by (simp add: airPitch_def)

lemma position_updateSpeed: "position (updateSpeed inp dt c) = position c"
  by (simp add: updateSpeed_def position_airDrag position_airRoll position_airPitch)

lemma position_updateSteering: "position (updateSteering inp dt c) = position c"
  by (simp add: updateSteering_def Let_def)

lemma position_updateDrift: "position (updateDrift inp dt b c) = position c"
  by (simp add: updateDrift_def createDriftMarks_def Let_def)

lemma position_carMoved: "position (carMoved inp dt c) = position c"
  by (simp add: carMoved_def Let_def position_updateDrift position_updateSteering
      position_updateSpeed position_storeLastValid)

lemma speed_landOnObstacle: "speed (landOnObstacle c) = speed c"
  and direction_landOnObstacle: "direction (landOnObstacle c) = direction c"
  and position_landOnObstacle: "position (landOnObstacle c) = position c"
  by (simp_all add: landOnObstacle_def)

lemma speed_moveToSafePosition: "speed (moveToSafePosition ob c) = speed c"
  and direction_moveToSafePosition: "direction (moveToSafePosition ob c) = direction c"
  by (simp_all add: moveToSafePosition_def Let_def)

lemma bounce_Some:
  "speed (bounce (Some n) c) = \<bar>speed c\<bar> * bounceFactor"
  "direction (bounce (Some n) c)
     = normalize (sub (velocity c) (multiplyScalar n (2 * dot (velocity c) n)))"
  "position (bounce (Some n) c) = position c"
  "lastValidPosition (bounce (Some n) c) = lastValidPosition c"
  by (simp_all add: bounce_def Let_def)

lemma moveToSafePosition_clear:
  assumes "distanceTo (lastValidPosition c) (oposition ob) > boundingRadius + oboundingRadius ob
           \<or> position c \<noteq> oposition ob"
  shows "distanceTo (position (moveToSafePosition ob c)) (oposition ob)
           \<ge> boundingRadius + oboundingRadius ob"
proof (cases "distanceTo (lastValidPosition c) (oposition ob) > boundingRadius + oboundingRadius ob")
  case True
  then show ?thesis by (simp add: moveToSafePosition_def)
next
  case False
  with assms have "sub (position c) (oposition ob) \<noteq> Vector3 0 0 0" by (simp add: sub_zero_iff)
  then have "vlength (normalize (sub (position c) (oposition ob))) = 1" by (rule vlength_normalize)
  with False show ?thesis
    by (simp add: moveToSafePosition_def Let_def distanceTo_add_left vlength_multiplyScalar)
qed

lemmas car_defs = storeLastValid_def updateSpeed_def airDrag_def airRoll_def airPitch_def steers_def
  updateSteering_def createDriftMarks_def updateDrift_def carMoved_def
  getSteeringIntensity_def steeringOfNormalized_def forwardOfEuler_def

text \<open>
  A car comes down beside a tree.  The first tick moves \<open>fallingCar\<close> to \<open>canopyCar\<close>
  without a collision: the candidate position, at the height the car has before gravity
  is applied, is at distance \<open>sqrt 12.24\<close> from the tree's position.  On the second tick
  the candidate position is at distance \<open>sqrt 9.984064\<close>, inside the bounding sphere
  of radius \<open>1.8 + 1.5\<close>, and so is the last valid position, at distance \<open>3\<close>.
\<close>

lemma carMoved_falling:
  "carMoved noKeys (1/10) fallingCar = fallingCar\<lparr>velocity := Vector3 0 0 10, speed := 10\<rparr>"
  by (simp add: fallingCar_def newCar_def noKeys_def car_defs vec_defs car_consts Let_def)

lemma sqrt_306_25: "\<not> sqrt (306 / 25) < 33 / 10"
proof -
  have "33 / 10 \<le> sqrt (306 / 25)" by (rule real_le_rsqrt) (simp add: power2_eq_square)
  then show ?thesis by simp
qed

lemma detect_falling:
  "detectCollision (1/10) [parkTree] (fallingCar\<lparr>velocity := Vector3 0 0 10, speed := 10\<rparr>)
     = NotColliding"
  using sqrt_306_25
  by (simp add: detectCollision_def newPosition_def fallingCar_def newCar_def parkTree_def
      isBoxType_def distanceTo_def vlength_def lengthSq_def sub_def add_def multiplyScalar_def
      Vector3_def car_consts)

lemma falling_tick:
  "carUpdate noKeys (1/10) [parkTree] fallingCar = canopyCar"
  unfolding carUpdate_def carResolved_def Let_def carMoved_falling detect_falling
  by (simp add: resolveCollision_def updateVertical_def newPosition_def canopyCar_def
      fallingCar_def newCar_def vec_defs car_consts Let_def)

lemma carMoved_canopy:
  "carMoved noKeys (1/10) canopyCar
     = canopyCar\<lparr>lastValidPosition := Vector3 (- 126 / 5) (12 / 5) 57,
                  velocity := Vector3 0 0 (248 / 25), speed := 248 / 25\<rparr>"
  by (simp add: canopyCar_def fallingCar_def newCar_def noKeys_def car_defs vec_defs car_consts Let_def)

lemma sqrt_canopy: "sqrt (156001 / 15625) < 33 / 10"
  by (rule real_less_lsqrt) (simp_all add: power2_eq_square)

lemma detect_canopy:
  "detectCollision (1/10) [parkTree]
     (canopyCar\<lparr>lastValidPosition := Vector3 (- 126 / 5) (12 / 5) 57,
                 velocity := Vector3 0 0 (248 / 25), speed := 248 / 25\<rparr>)
     = Colliding parkTree (Some (normalize (Vector3 (9 / 5) (12 / 5) (124 / 125))))"
  using sqrt_canopy
  by (simp add: detectCollision_def newPosition_def canopyCar_def fallingCar_def newCar_def
      parkTree_def isBoxType_def distanceTo_def vlength_def lengthSq_def sub_def add_def
      multiplyScalar_def Vector3_def car_consts)

lemma sqrt_9: "sqrt 9 = 3"
  by (rule real_sqrt_unique) simp_all

lemma bounce_vertical:
  "isAirborne (bounce (Some n) c) = (\<bar>speed c\<bar> > 10 \<or> isAirborne c)"
  "verticalVelocity (bounce (Some n) c)
     = (if \<bar>speed c\<bar> > 10 then 3 + min 5 (\<bar>speed c\<bar> * 0.1) else verticalVelocity c)"
  "onRamp (bounce (Some n) c) = onRamp c"
  by (simp_all add: bounce_def Let_def)

lemma moveToSafePosition_frame:
  "isAirborne (moveToSafePosition ob c) = isAirborne c"
  "verticalVelocity (moveToSafePosition ob c) = verticalVelocity c"
  "onRamp (moveToSafePosition ob c) = onRamp c"
  by (simp_all add: moveToSafePosition_def Let_def)

lemma landOnObstacle_vertical:
  "isAirborne (landOnObstacle c) = (isAirborne c \<and> \<not> verticalVelocity c < 0)"
  "onRamp (landOnObstacle c) = onRamp c"
  by (auto simp add: landOnObstacle_def)

lemma resolved_canopy:
  "position (carResolved noKeys (1/10) [parkTree] canopyCar) = Vector3 (- 624 / 25) (68 / 25) 57"
  unfolding carResolved_def Let_def carMoved_canopy detect_canopy
  using sqrt_9
  by (simp add: resolveCollision_def position_landOnObstacle moveToSafePosition_def bounce_Some
      canopyCar_def fallingCar_def newCar_def parkTree_def vec_defs car_consts Let_def)

lemma grounded_canopy:
  "\<not> isAirborne (carResolved noKeys (1/10) [parkTree] canopyCar)
   \<and> \<not> onRamp (carResolved noKeys (1/10) [parkTree] canopyCar)"
  unfolding carResolved_def Let_def carMoved_canopy detect_canopy
  by (simp add: resolveCollision_def landOnObstacle_vertical moveToSafePosition_frame
      bounce_vertical canopyCar_def fallingCar_def newCar_def)

lemma updated_canopy:
  "position (carUpdate noKeys (1/10) [parkTree] canopyCar) = Vector3 (- 624 / 25) (1 / 2) 57"
  using grounded_canopy
  by (simp add: carUpdate_def updateVertical_def resolved_canopy Vector3_def)

lemma sqrt_after_push: "sqrt (289 / 25) = 17 / 5"
  by (rule real_sqrt_unique) (simp_all add: power2_eq_square)

lemma sqrt_after_snap: "sqrt (11029 / 2500) < 33 / 10"
  by (rule real_less_lsqrt) (simp_all add: power2_eq_square)

text \<open>
  C3: after a collision the car is at distance at least the sum of the two bounding radii
  from the obstacle centre, so that no overlap remains.  \<open>Car.update\<close> measures the
  distance in three dimensions from the obstacle's position, which for a tree lies on the
  ground, and its push-away branch moves the car along the line from that position to
  the car, which points upwards.  At the end of the collision block (line 693)
  \<open>canopyCar\<close> is at distance \<open>3.4\<close> from the tree, at height \<open>2.72\<close>.  The collision
  has ended the flight, so the car is grounded, and lines 717 to 719 put it at height
  \<open>0.5\<close>: \<open>Car.update\<close> returns the car at distance \<open>sqrt 4.4116\<close>, about \<open>2.1\<close>,
  from the tree's position, less than the sum \<open>3.3\<close> of the radii.
\<close>

theorem ground_snap_undoes_push_away:
  "carUpdate noKeys (1/10) [parkTree] fallingCar = canopyCar
   \<and> detectCollision (1/10) [parkTree] (carMoved noKeys (1/10) canopyCar)
       = Colliding parkTree (Some (normalize (Vector3 (9 / 5) (12 / 5) (124 / 125))))
   \<and> position (carResolved noKeys (1/10) [parkTree] canopyCar) = Vector3 (- 624 / 25) (68 / 25) 57
   \<and> distanceTo (position (carResolved noKeys (1/10) [parkTree] canopyCar)) (oposition parkTree)
       = 17 / 5
   \<and> position (carUpdate noKeys (1/10) [parkTree] canopyCar) = Vector3 (- 624 / 25) (1 / 2) 57
   \<and> distanceTo (position (carUpdate noKeys (1/10) [parkTree] canopyCar)) (oposition parkTree)
       < boundingRadius + oboundingRadius parkTree
   \<and> boundingRadius + oboundingRadius parkTree = 33 / 10"
proof -
  have a: "detectCollision (1/10) [parkTree] (carMoved noKeys (1/10) canopyCar)
       = Colliding parkTree (Some (normalize (Vector3 (9 / 5) (12 / 5) (124 / 125))))"
    unfolding carMoved_canopy by (rule detect_canopy)
  have b: "distanceTo (position (carResolved noKeys (1/10) [parkTree] canopyCar))
       (oposition parkTree) = 17 / 5"
    unfolding resolved_canopy using sqrt_after_push by (simp add: parkTree_def vec_defs)
  have d: "boundingRadius + oboundingRadius parkTree = 33 / 10"
    by (simp add: parkTree_def car_consts)
  have c: "distanceTo (position (carUpdate noKeys (1/10) [parkTree] canopyCar))
       (oposition parkTree) < boundingRadius + oboundingRadius parkTree"
    unfolding updated_canopy d using sqrt_after_snap by (simp add: parkTree_def vec_defs)
  from falling_tick a resolved_canopy b updated_canopy c d show ?thesis by blast
qed

text \<open>
  What the collision block itself achieves, at line 693 and before the height of the car
  is adjusted.  Whenever \<open>Car.update\<close> detects a collision, the collision has a normal
  \<open>n\<close>; at the end of the collision block the speed is \<open>|impact speed| * bounceFactor\<close>
  with \<open>bounceFactor = 0.3\<close>, the direction is the normalized reflection
  \<open>v - 2 (v \<cdot> n) n\<close> of the velocity \<open>v\<close>, and the position is at distance at least
  (vehicle bounding radius + obstacle bounding radius) from the obstacle's position,
  provided the last valid position is farther away than that sum or the car's position
  before the move is not the obstacle's position.  The position \<open>Car.update\<close> returns
  is another one whenever the rest of the method changes the height, as it does above.
\<close>

theorem collision_resolution_bounce:
  assumes "detectCollision dt obs (carMoved inp dt c) = Colliding ob cn"
  shows "\<exists>n. cn = Some n
     \<and> bounceFactor = 0.3
     \<and> speed (carResolved inp dt obs c) = \<bar>speed (carMoved inp dt c)\<bar> * bounceFactor
     \<and> direction (carResolved inp dt obs c)
         = normalize (sub (velocity (carMoved inp dt c))
                          (multiplyScalar n (2 * dot (velocity (carMoved inp dt c)) n)))
     \<and> (distanceTo (lastValidPosition (carMoved inp dt c)) (oposition ob)
            > boundingRadius + oboundingRadius ob
          \<or> position c \<noteq> oposition ob
        \<longrightarrow> distanceTo (position (carResolved inp dt obs c)) (oposition ob)
              \<ge> boundingRadius + oboundingRadius ob)"
proof -
  let ?c1 = "carMoved inp dt c"
  from detectCollision_normal [OF assms] obtain n where n: "cn = Some n" by blast
  let ?b = "bounce (Some n) (?c1\<lparr>colliding := True\<rparr>)"
  have r: "carResolved inp dt obs c = landOnObstacle (moveToSafePosition ob ?b)"
    using assms n by (simp add: carResolved_def Let_def resolveCollision_def)
  have s: "speed (carResolved inp dt obs c) = \<bar>speed ?c1\<bar> * bounceFactor"
    by (simp add: r speed_landOnObstacle speed_moveToSafePosition bounce_Some)
  have d: "direction (carResolved inp dt obs c)
         = normalize (sub (velocity ?c1) (multiplyScalar n (2 * dot (velocity ?c1) n)))"
    by (simp add: r direction_landOnObstacle direction_moveToSafePosition bounce_Some)
  have p: "distanceTo (position (carResolved inp dt obs c)) (oposition ob)
              \<ge> boundingRadius + oboundingRadius ob"
    if "distanceTo (lastValidPosition ?c1) (oposition ob) > boundingRadius + oboundingRadius ob
          \<or> position c \<noteq> oposition ob"
  proof -
    from that have "distanceTo (lastValidPosition ?b) (oposition ob)
           > boundingRadius + oboundingRadius ob \<or> position ?b \<noteq> oposition ob"
      by (simp add: bounce_Some position_carMoved)
    from moveToSafePosition_clear [OF this] show ?thesis
      by (simp add: r position_landOnObstacle)
  qed
  from n s d p show ?thesis by (simp add: bounceFactor_def)
qed

lemma carMoved_approaching:
  "carMoved forwardKey (1/20) approachingCar = newCar\<lparr>speed := 20, velocity := Vector3 0 0 20\<rparr>"
  by (simp add: approachingCar_def newCar_def forwardKey_def car_defs vec_defs car_consts Let_def)

lemma sqrt_17_4: "sqrt (17 / 4) < 33 / 10"
  by (rule real_less_lsqrt) (simp_all add: power2_eq_square)

lemma detect_approaching:
  "detectCollision (1/20) [treeAhead] (newCar\<lparr>speed := 20, velocity := Vector3 0 0 20\<rparr>)
     = Colliding treeAhead (Some (normalize (Vector3 0 (1/2) (- 2))))"
  using sqrt_17_4
  by (simp add: detectCollision_def newPosition_def newCar_def treeAhead_def isBoxType_def
      distanceTo_def vlength_def lengthSq_def sub_def add_def multiplyScalar_def Vector3_def
      car_consts)

theorem collision_resolution_bounce_example:
  "speed (carResolved forwardKey (1/20) [treeAhead] approachingCar) = 6
   \<and> distanceTo (position (carResolved forwardKey (1/20) [treeAhead] approachingCar))
        (oposition treeAhead) \<ge> boundingRadius + oboundingRadius treeAhead"
proof -
  have h: "detectCollision (1/20) [treeAhead] (carMoved forwardKey (1/20) approachingCar)
     = Colliding treeAhead (Some (normalize (Vector3 0 (1/2) (- 2))))"
    unfolding carMoved_approaching by (rule detect_approaching)
  have ne: "position approachingCar \<noteq> oposition treeAhead"
    by (simp add: approachingCar_def newCar_def treeAhead_def Vector3_def)
  have sp: "\<bar>speed (carMoved forwardKey (1/20) approachingCar)\<bar> * bounceFactor = 6"
    unfolding carMoved_approaching by (simp add: bounceFactor_def)
  from collision_resolution_bounce [OF h] ne sp show ?thesis
    by auto
qed

subsection \<open>A tick at the edge of the playable rectangle\<close>

text \<open>
  A world without props skips the prop loop, and one without pedestrians the pedestrian
  loop.  The car of \<open>carNearEdge\<close> drives from \<open>z = 84\<close> to \<open>z = 86\<close> in a twentieth
  of a second, is out of bounds there, and is bounced: direction reversed, speed
  \<open>40 * 0.4 = 16\<close>, a hop with vertical velocity \<open>4\<close>.
\<close>

lemma updatePhysicsObjects_nil:
  "physicsObjects g = [] \<Longrightarrow> updatePhysicsObjects e dt g = Some g"
  by (simp add: updatePhysicsObjects_def)

lemma updateHumans_nil: "humans g = [] \<Longrightarrow> updateHumans e dt g = g"
  by (simp add: updateHumans_def)

lemma gameUpdate_no_props:
  "physicsObjects g = [] \<Longrightarrow>
     gameUpdate e inp dt g = Some (updateHumans e dt (driveCar inp dt g))"
  by (simp add: gameUpdate_def driveCar_def applyBoost_def Let_def updatePhysicsObjects_nil)

lemma sqrt_1600: "sqrt 1600 = 40"
  by (rule real_sqrt_unique) simp_all

lemma edge_moved: "carMoved forwardKey (1/20) edgeCar = edgeCar\<lparr>velocity := Vector3 0 0 40\<rparr>"
  by (simp add: edgeCar_def newCar_def forwardKey_def car_defs vec_defs car_consts Let_def)

lemma edge_updated:
  "carUpdate forwardKey (1/20) [] edgeCar
     = edgeCar\<lparr>velocity := Vector3 0 0 40, position := Vector3 0 (1/2) 86\<rparr>"
  unfolding carUpdate_def carResolved_def Let_def edge_moved
  by (simp add: detectCollision_def resolveCollision_def newPosition_def updateVertical_def
      relax_def edgeCar_def newCar_def vec_defs)

lemma edge_bounced:
  "enforceBoundary sourceCity (edgeCar\<lparr>velocity := Vector3 0 0 40, position := Vector3 0 (1/2) 86\<rparr>)
     = edgeCarBounced"
  by (simp add: enforceBoundary_def outOfBounds_def boundLimit_def totalSize_def sourceCity_def
      boundaryNormal_def sign_def atan2_def edgeCar_def edgeCarBounced_def newCar_def vec_defs
      sqrt_1600 Let_def)

lemma edge_ramps: "checkRampInteractions [] edgeCarBounced = edgeCarBounced"
  by (simp add: checkRampInteractions_def edgeCarBounced_def edgeCar_def newCar_def getSpeed_def)

lemma boost_idle: "stepMultiplier (1/20) (updateBoost (1/20) setupSpeedBoost) = setupSpeedBoost"
  by (simp add: stepMultiplier_def updateBoost_def targetMultiplier_def setupSpeedBoost_def)

lemma currentMultiplier_setup: "currentMultiplier setupSpeedBoost = 1"
  by (simp add: setupSpeedBoost_def)

lemma edge_driveCar:
  assumes "gcar g = edgeCar" and "obstacles g = []" and "ramps g = []"
    and "gcity g = sourceCity" and "gboost g = setupSpeedBoost"
  shows "driveCar forwardKey (1/20) g = g\<lparr>gcar := edgeCarBounced\<rparr>"
proof -
  have same: "g\<lparr>gboost := setupSpeedBoost\<rparr> = g"
    using assms(5) [symmetric] by simp
  have "applyBoost (1/20) (g\<lparr>gboost := updateBoost (1/20) setupSpeedBoost,
            gcar := edgeCar\<lparr>velocity := Vector3 0 0 40, position := Vector3 0 (1/2) 86\<rparr>\<rparr>)
          = (g\<lparr>gboost := setupSpeedBoost\<rparr>)
              \<lparr>gcar := edgeCar\<lparr>velocity := Vector3 0 0 40, position := Vector3 0 (1/2) 86\<rparr>\<rparr>"
    by (simp add: applyBoost_def boost_idle Let_def currentMultiplier_setup)
  then have "applyBoost (1/20) (g\<lparr>gboost := updateBoost (1/20) setupSpeedBoost,
            gcar := edgeCar\<lparr>velocity := Vector3 0 0 40, position := Vector3 0 (1/2) 86\<rparr>\<rparr>)
          = g\<lparr>gcar := edgeCar\<lparr>velocity := Vector3 0 0 40, position := Vector3 0 (1/2) 86\<rparr>\<rparr>"
    by (simp only: same)
  then show ?thesis
    using assms by (simp add: driveCar_def Let_def edge_updated edge_bounced edge_ramps)
qed

text \<open>
  The bounce scales the scalar speed and keeps its sign: a car that reverses across the
  boundary keeps reversing.
\<close>

lemma speed_enforceBoundary_reversing: "speed c < 0 \<Longrightarrow> speed (enforceBoundary ct c) < 0"
  by (auto simp: enforceBoundary_def Let_def mult_less_0_iff)

lemma position_enforceBoundary: "position (enforceBoundary ct c) = position c"
  by (simp add: enforceBoundary_def Let_def)

text \<open>
  C1: after every tick the car's stored position is clamped to the playable rectangle.
  \<open>Game.update\<close> clamps the vector that \<open>getPosition\<close> returned, which is a clone, and
  never writes it back: \<open>enforceBoundary\<close> leaves the position of every car as it is.
  In the city of the source (bound \<open>85\<close>) the car of \<open>carNearEdge\<close> ends the tick at
  \<open>z = 86\<close>, where the clamped clone has \<open>z = 85\<close>.
\<close>

theorem boundary_clamp_is_lost:
  "map_option (\<lambda>g. position (gcar g)) (gameUpdate e forwardKey (1/20) carNearEdge)
     = Some (Vector3 0 (1/2) 86)
   \<and> boundLimit (gcity carNearEdge) = 85
   \<and> clampToBounds (gcity carNearEdge) (Vector3 0 (1/2) 86) = Vector3 0 (1/2) 85
   \<and> position (enforceBoundary ct c) = position c"
proof -
  have d: "driveCar forwardKey (1/20) carNearEdge = carNearEdge\<lparr>gcar := edgeCarBounced\<rparr>"
    by (rule edge_driveCar) (simp_all add: carNearEdge_def emptyWorld_def)
  have p: "physicsObjects carNearEdge = []" by (simp add: carNearEdge_def emptyWorld_def)
  have h: "humans (carNearEdge\<lparr>gcar := edgeCarBounced\<rparr>) = []"
    by (simp add: carNearEdge_def emptyWorld_def)
  have "gameUpdate e forwardKey (1/20) carNearEdge
          = Some (updateHumans e (1/20) (driveCar forwardKey (1/20) carNearEdge))"
    by (rule gameUpdate_no_props [OF p])
  also have "\<dots> = Some (carNearEdge\<lparr>gcar := edgeCarBounced\<rparr>)"
    by (simp only: d updateHumans_nil [OF h])
  finally have 1: "map_option (\<lambda>g. position (gcar g)) (gameUpdate e forwardKey (1/20) carNearEdge)
     = Some (Vector3 0 (1/2) 86)"
    by (simp add: edgeCarBounced_def)
  have 2: "boundLimit (gcity carNearEdge) = 85"
    by (simp add: carNearEdge_def emptyWorld_def sourceCity_def boundLimit_def totalSize_def)
  have 3: "clampToBounds (gcity carNearEdge) (Vector3 0 (1/2) 86) = Vector3 0 (1/2) 85"
    by (simp add: clampToBounds_def carNearEdge_def emptyWorld_def sourceCity_def boundLimit_def
        totalSize_def sign_def Vector3_def)
  from 1 2 3 position_enforceBoundary show ?thesis by blast
qed

subsection \<open>Pedestrians\<close>

lemma updateHuman_dead: "isDead h \<Longrightarrow> updateHuman e dt cp cs h g = (h, g)"
  by (simp add: updateHuman_def)

lemma updateHuman_kills:
  assumes "\<not> isDead h" and "distanceTo (groundPosition h) cp < boundingRadius + h_boundingRadius h"
    and "cs > 5"
  shows "isDead (fst (updateHuman e dt cp cs h g)) \<and> state (fst (updateHuman e dt cp cs h g)) = Dead"
  using assms by (simp add: updateHuman_def killHuman_def Let_def)

lemma updateHuman_car: "gcar (snd (updateHuman e dt cp cs h g)) = gcar g"
  by (simp add: updateHuman_def killHuman_def addScore_def Let_def split: prod.splits)

lemma humansLoop_length:
  "length (fst (humansLoop e dt cp cs hs g)) = length hs"
proof (induction hs arbitrary: g)
  case Nil
  then show ?case by simp
next
  case (Cons h hs)
  obtain h1 g1 where u: "updateHuman e dt cp cs h g = (h1, g1)" by (cases "updateHuman e dt cp cs h g")
  obtain hs2 g2 where l: "humansLoop e dt cp cs hs g1 = (hs2, g2)" by (cases "humansLoop e dt cp cs hs g1")
  from Cons.IH [of g1] l have "length hs2 = length hs" by simp
  with u l show ?case by simp
qed

lemma humansLoop_nth:
  "i < length hs \<Longrightarrow>
     \<exists>gi. fst (humansLoop e dt cp cs hs g) ! i = fst (updateHuman e dt cp cs (hs ! i) gi)"
proof (induction hs arbitrary: g i)
  case Nil
  then show ?case by simp
next
  case (Cons h hs)
  obtain h1 g1 where u: "updateHuman e dt cp cs h g = (h1, g1)" by (cases "updateHuman e dt cp cs h g")
  obtain hs2 g2 where l: "humansLoop e dt cp cs hs g1 = (hs2, g2)" by (cases "humansLoop e dt cp cs hs g1")
  show ?case
  proof (cases i)
    case 0
    with u l show ?thesis by (auto intro: exI [of _ g])
  next
    case (Suc j)
    with Cons.prems have "j < length hs" by simp
    from Cons.IH [OF this, of g1] obtain gi where
      "fst (humansLoop e dt cp cs hs g1) ! j = fst (updateHuman e dt cp cs (hs ! j) gi)" by blast
    with u l Suc show ?thesis by auto
  qed
qed

lemma humans_updateHumans_nth:
  assumes "i < length (humans g)"
  shows "\<exists>gi. humans (updateHumans e dt g) ! i
            = fst (updateHuman e dt (position (gcar g)) (getSpeed (gcar g)) (humans g ! i) gi)"
proof -
  from humansLoop_nth [OF assms] obtain gi where
    "fst (humansLoop e dt (position (gcar g)) (getSpeed (gcar g)) (humans g) g) ! i
       = fst (updateHuman e dt (position (gcar g)) (getSpeed (gcar g)) (humans g ! i) gi)"
    by blast
  then show ?thesis by (auto simp: updateHumans_def split: prod.splits)
qed

lemma dead_stays_updateHumans:
  assumes "i < length (humans g)" and "isDead (humans g ! i)"
  shows "humans (updateHumans e dt g) ! i = humans g ! i"
  using humans_updateHumans_nth [OF assms(1), of e dt] assms(2) by (auto simp: updateHuman_dead)

lemma kill_updateHumans:
  assumes "i < length (humans g)" and "\<not> isDead (humans g ! i)"
    and "distanceTo (groundPosition (humans g ! i)) (position (gcar g))
           < boundingRadius + h_boundingRadius (humans g ! i)"
    and "getSpeed (gcar g) > 5"
  shows "isDead (humans (updateHumans e dt g) ! i) \<and> state (humans (updateHumans e dt g) ! i) = Dead"
proof -
  from humans_updateHumans_nth [OF assms(1), of e dt] obtain gi where
    "humans (updateHumans e dt g) ! i
       = fst (updateHuman e dt (position (gcar g)) (getSpeed (gcar g)) (humans g ! i) gi)" by blast
  with updateHuman_kills [OF assms(2,3,4), of e dt gi] show ?thesis by simp
qed

lemma humans_updatePhysicsObject:
  "updatePhysicsObject e dt cp cs cd obj g = Some (obj1, g1) \<Longrightarrow> humans g1 = humans g"
  by (auto simp: updatePhysicsObject_def addScore_def Let_def split: if_splits option.splits prod.splits)

lemma humans_physicsLoop:
  "physicsLoop e dt cp cs cd objs g = Some (objs1, g1) \<Longrightarrow> humans g1 = humans g"
proof (induction objs arbitrary: g objs1 g1)
  case Nil
  then show ?case by simp
next
  case (Cons obj objs)
  then show ?case
    by (auto split: option.splits prod.splits dest!: humans_updatePhysicsObject)
qed

lemma humans_updatePhysicsObjects:
  "updatePhysicsObjects e dt g = Some g1 \<Longrightarrow> humans g1 = humans g"
  by (auto simp: updatePhysicsObjects_def split: option.splits prod.splits dest: humans_physicsLoop)

lemma humans_driveCar: "humans (driveCar inp dt g) = humans g"
  by (simp add: driveCar_def applyBoost_def Let_def)

lemma gameUpdate_humans:
  assumes "gameUpdate e inp dt g = Some g'"
  shows "\<exists>g6. humans g6 = humans g \<and> g' = updateHumans e dt g6"
proof -
  from assms obtain g6 where
    p: "updatePhysicsObjects e dt (driveCar inp dt g) = Some g6"
    and g': "g' = updateHumans e dt g6"
    by (auto simp: gameUpdate_def split: option.splits)
  from humans_updatePhysicsObjects [OF p] have "humans g6 = humans g"
    by (simp add: humans_driveCar)
  with g' show ?thesis by blast
qed

lemma dead_stays_gameUpdate:
  assumes "gameUpdate e inp dt g = Some g'" and "i < length (humans g)" and "isDead (humans g ! i)"
  shows "humans g' ! i = humans g ! i"
proof -
  from gameUpdate_humans [OF assms(1)] obtain g6 where
    h: "humans g6 = humans g" and g': "g' = updateHumans e dt g6" by blast
  from dead_stays_updateHumans [of i g6 e dt] assms(2,3) h g' show ?thesis by simp
qed

lemma gcar_updateHumans: "gcar (updateHumans e dt g) = gcar g"
proof -
  have "gcar (snd (humansLoop e dt cp cs hs g0)) = gcar g0" for cp cs hs g0
  proof (induction hs arbitrary: g0)
    case Nil
    then show ?case by simp
  next
    case (Cons h hs)
    obtain h1 g1 where u: "updateHuman e dt cp cs h g0 = (h1, g1)" by (cases "updateHuman e dt cp cs h g0")
    obtain hs2 g2 where l: "humansLoop e dt cp cs hs g1 = (hs2, g2)" by (cases "humansLoop e dt cp cs hs g1")
    from updateHuman_car [of e dt cp cs h g0] u have "gcar g1 = gcar g0" by simp
    moreover from Cons.IH [of g1] l have "gcar g2 = gcar g1" by simp
    ultimately show ?case using u l by simp
  qed
  from this [of "position (gcar g)" "getSpeed (gcar g)" "humans g" g]
  show ?thesis by (auto simp: updateHumans_def split: prod.splits)
qed

lemma length_humans_gameUpdate:
  assumes "gameUpdate e inp dt g = Some g'"
  shows "length (humans g') = length (humans g)"
proof -
  from gameUpdate_humans [OF assms] obtain g6 where
    h: "humans g6 = humans g" and g': "g' = updateHumans e dt g6" by blast
  have "length (humans (updateHumans e dt g6)) = length (humans g6)"
    using humansLoop_length [of e dt "position (gcar g6)" "getSpeed (gcar g6)" "humans g6" g6]
    by (simp add: updateHumans_def case_prod_beta)
  with h g' show ?thesis by simp
qed

lemma dead_stays_play:
  assumes "play e g evs = Some g'" and "i < length (humans g)" and "isDead (humans g ! i)"
  shows "humans g' ! i = humans g ! i"
  using assms
proof (induction evs arbitrary: g)
  case Nil
  then show ?case by simp
next
  case (Cons ev evs)
  show ?case
  proof (cases ev)
    case (Frame inp dt)
    with Cons.prems(1) obtain g1 where
      u: "gameUpdate e inp dt g = Some g1" and r: "play e g1 evs = Some g'"
      by (auto split: option.splits)
    from dead_stays_gameUpdate [OF u Cons.prems(2,3)] have s: "humans g1 ! i = humans g ! i" .
    from length_humans_gameUpdate [OF u] Cons.prems(2) have l: "i < length (humans g1)" by simp
    from Cons.IH [OF r l] s Cons.prems(3) show ?thesis by simp
  next
    case SpacePressed
    with Cons.prems Cons.IH [of "g\<lparr>gboost := spaceKeyDown (gboost g)\<rparr>"] show ?thesis by simp
  next
    case SpaceReleased
    with Cons.prems Cons.IH [of "g\<lparr>gboost := spaceKeyUp (gboost g)\<rparr>"] show ?thesis by simp
  qed
qed

text \<open>
  C5: \<open>Dead\<close> is terminal, and a close and fast car kills within the tick.  First, the
  callback of \<open>updateHumans\<close> returns a dead pedestrian and the game state (so the score)
  as they are.  Second, a pedestrian that is dead when a tick starts is the same at its
  end: state, position and every other field.  Third, the same holds over any run of
  frames and key events.  Fourth, if a pedestrian is not dead when the tick starts and the
  car, where \<open>updateHumans\<close> finds it in that tick, is closer to the pedestrian's ground
  position than the sum of the two bounding radii and faster than \<open>5\<close>, the pedestrian
  is dead, in state \<open>Dead\<close>, at the end of the tick.
\<close>

theorem dead_is_terminal_and_fast_close_car_kills:
  "(isDead h \<longrightarrow> updateHuman e dt cp cs h g = (h, g))
   \<and> (gameUpdate e inp dt g = Some g' \<and> i < length (humans g) \<and> isDead (humans g ! i)
        \<longrightarrow> humans g' ! i = humans g ! i)
   \<and> (play e g evs = Some g'' \<and> i < length (humans g) \<and> isDead (humans g ! i)
        \<longrightarrow> humans g'' ! i = humans g ! i)
   \<and> (gameUpdate e inp dt g = Some g' \<and> i < length (humans g) \<and> \<not> isDead (humans g ! i)
        \<and> distanceTo (groundPosition (humans g ! i)) (position (gcar g'))
              < boundingRadius + h_boundingRadius (humans g ! i)
        \<and> getSpeed (gcar g') > 5
        \<longrightarrow> isDead (humans g' ! i) \<and> state (humans g' ! i) = Dead)"
proof (intro conjI impI)
  assume "isDead h"
  then show "updateHuman e dt cp cs h g = (h, g)" by (rule updateHuman_dead)
next
  assume "gameUpdate e inp dt g = Some g' \<and> i < length (humans g) \<and> isDead (humans g ! i)"
  then show "humans g' ! i = humans g ! i" using dead_stays_gameUpdate by blast
next
  assume "play e g evs = Some g'' \<and> i < length (humans g) \<and> isDead (humans g ! i)"
  then show "humans g'' ! i = humans g ! i" using dead_stays_play by blast
next
  assume a: "gameUpdate e inp dt g = Some g' \<and> i < length (humans g) \<and> \<not> isDead (humans g ! i)
        \<and> distanceTo (groundPosition (humans g ! i)) (position (gcar g'))
              < boundingRadius + h_boundingRadius (humans g ! i)
        \<and> getSpeed (gcar g') > 5"
  from a gameUpdate_humans obtain g6 where
    h: "humans g6 = humans g" and g': "g' = updateHumans e dt g6" by blast
  have c: "gcar g' = gcar g6" by (simp add: g' gcar_updateHumans)
  from kill_updateHumans [of i g6 e dt] a h c g'
  show "isDead (humans g' ! i)" and "state (humans g' ! i) = Dead" by simp_all
qed

lemma sqrt_5_4: "sqrt (5 / 4) < 11 / 5"
  by (rule real_less_lsqrt) (simp_all add: power2_eq_square)

lemma crowd_tick:
  "gameUpdate e forwardKey (1/20) crowdNearEdge
     = Some (updateHumans e (1/20) (crowdNearEdge\<lparr>gcar := edgeCarBounced\<rparr>))"
proof -
  have p: "physicsObjects crowdNearEdge = []"
    by (simp add: crowdNearEdge_def carNearEdge_def emptyWorld_def)
  have d: "driveCar forwardKey (1/20) crowdNearEdge = crowdNearEdge\<lparr>gcar := edgeCarBounced\<rparr>"
    by (rule edge_driveCar) (simp_all add: crowdNearEdge_def carNearEdge_def emptyWorld_def)
  show ?thesis by (simp only: gameUpdate_no_props [OF p] d)
qed

theorem dead_is_terminal_and_fast_close_car_kills_witness:
  "humans (updateHumans fixedEnv (1/20) (crowdNearEdge\<lparr>gcar := edgeCarBounced\<rparr>)) ! 0 = corpse
   \<and> isDead (humans (updateHumans fixedEnv (1/20) (crowdNearEdge\<lparr>gcar := edgeCarBounced\<rparr>)) ! 1)
   \<and> state (humans (updateHumans fixedEnv (1/20) (crowdNearEdge\<lparr>gcar := edgeCarBounced\<rparr>)) ! 1) = Dead
   \<and> updateHuman fixedEnv (1/20) (Vector3 0 (1/2) 86) 16 corpse crowdNearEdge = (corpse, crowdNearEdge)
   \<and> play fixedEnv crowdNearEdge [Frame forwardKey (1/20)]
        = Some (updateHumans fixedEnv (1/20) (crowdNearEdge\<lparr>gcar := edgeCarBounced\<rparr>))"
proof -
  let ?g' = "updateHumans fixedEnv (1/20) (crowdNearEdge\<lparr>gcar := edgeCarBounced\<rparr>)"
  note t = dead_is_terminal_and_fast_close_car_kills
  have hs: "humans crowdNearEdge = [corpse, bystander]" by (simp add: crowdNearEdge_def)
  have c: "gcar ?g' = edgeCarBounced" by (simp add: gcar_updateHumans)
  have dead: "isDead corpse" by (simp add: corpse_def)
  have alive: "\<not> isDead bystander" by (simp add: bystander_def walker_def)
  have near: "distanceTo (groundPosition bystander) (position edgeCarBounced)
                < boundingRadius + h_boundingRadius bystander"
    using sqrt_5_4
    by (simp add: groundPosition_def bystander_def walker_def edgeCarBounced_def vec_defs
        car_consts)
  have fast: "getSpeed edgeCarBounced > 5" by (simp add: getSpeed_def edgeCarBounced_def)
  have pl: "play fixedEnv crowdNearEdge [Frame forwardKey (1/20)] = Some ?g'"
    by (simp add: crowd_tick)
  have 1: "updateHuman fixedEnv (1/20) (Vector3 0 (1/2) 86) 16 corpse crowdNearEdge
             = (corpse, crowdNearEdge)"
    using t [where h = corpse and e = fixedEnv and dt = "1/20" and cp = "Vector3 0 (1/2) 86"
        and cs = 16 and g = crowdNearEdge] dead by blast
  have 2: "humans ?g' ! 0 = corpse"
    using t [where e = fixedEnv and dt = "1/20" and g = crowdNearEdge and inp = forwardKey
        and g' = ?g' and i = 0] crowd_tick [of fixedEnv] hs dead
    by simp
  have 3: "isDead (humans ?g' ! 1) \<and> state (humans ?g' ! 1) = Dead"
    using t [where e = fixedEnv and dt = "1/20" and g = crowdNearEdge and inp = forwardKey
        and g' = ?g' and i = 1] crowd_tick [of fixedEnv] hs alive near fast c
    by simp
  have 4: "humans ?g' ! 0 = humans crowdNearEdge ! 0"
    using t [where e = fixedEnv and g = crowdNearEdge and g'' = ?g' and i = 0
        and evs = "[Frame forwardKey (1/20)]"] pl hs dead
    by simp
  from 1 2 3 4 pl show ?thesis by blast
qed

subsection \<open>From walking to fleeing\<close>

lemma updateHuman_starts_fleeing:
  assumes "state h = Walking" and "\<not> isDead h"
    and "distanceTo (groundPosition h) cp < detectionRadius h"
    and "distanceTo (groundPosition h) cp \<le> 500"
    and "\<not> (distanceTo (groundPosition h) cp < boundingRadius + h_boundingRadius h \<and> cs > 5)"
  shows "updateHuman e dt cp cs h g
           = (h\<lparr>h_position := groundPosition h, state := Fleeing, runningFrom := Some cp\<rparr>, g)"
  using assms by (auto simp add: updateHuman_def Let_def)

lemma h_velocity_animateRunning: "h_velocity (animateRunning dt h) = h_velocity h"
  by (simp add: animateRunning_def)

lemma flee_velocity:
  assumes "\<not> atBoundary ct (add (h_position h)
              (multiplyScalar (multiplyScalar (normalize (sub (h_position h) cp)) (fleeSpeed h)) dt))"
  shows "h_velocity (flee ct obs dt cp h)
           = multiplyScalar (normalize (sub (h_position h) cp)) (fleeSpeed h)"
  using assms by (simp add: flee_def Let_def h_velocity_animateRunning)

lemma updateHuman_keeps_fleeing:
  assumes "state h = Fleeing" and "\<not> isDead h"
    and "distanceTo (groundPosition h) cp < detectionRadius h * 1.5"
    and "distanceTo (groundPosition h) cp \<le> 500"
    and "\<not> (distanceTo (groundPosition h) cp < boundingRadius + h_boundingRadius h \<and> cs > 5)"
  shows "updateHuman e dt cp cs h g
           = (flee (gcity g) (obstacles g) dt cp (h\<lparr>h_position := groundPosition h\<rparr>), g)"
  using assms by (auto simp add: updateHuman_def Let_def)

lemma sqrt_401_4: "sqrt (401 / 4) < 15"
  by (rule real_less_lsqrt) (simp_all add: power2_eq_square)

lemma walker_near: "distanceTo (groundPosition walker) (Vector3 0 (1/2) 0) < detectionRadius walker"
  using sqrt_401_4 by (simp add: groundPosition_def walker_def vec_defs)

text \<open>
  C6 (as stated): on the tick on which the car comes within the detection radius of a
  walking pedestrian, the pedestrian is fleeing and its velocity has magnitude
  \<open>fleeSpeed\<close>.  The walking branch only sets the state and \<open>runningFrom\<close>; the
  velocity is written by the fleeing branch, which runs from the next tick on.  The
  pedestrian \<open>walker\<close> (walking at speed \<open>2\<close>, flee speed \<open>6\<close>) with a parked car ten
  units away is fleeing after the tick, with velocity still of magnitude \<open>2\<close>.
\<close>

theorem fleeing_starts_at_walking_pace:
  "state walker = Walking
   \<and> distanceTo (groundPosition walker) (Vector3 0 (1/2) 0) < detectionRadius walker
   \<and> state (fst (updateHuman fixedEnv (1/60) (Vector3 0 (1/2) 0) 0 walker emptyWorld)) = Fleeing
   \<and> vlength (h_velocity (fst (updateHuman fixedEnv (1/60) (Vector3 0 (1/2) 0) 0 walker emptyWorld))) = 2
   \<and> fleeSpeed walker = 6"
proof -
  have far: "distanceTo (groundPosition walker) (Vector3 0 (1/2) 0) \<le> 500"
    using walker_near by (simp add: walker_def)
  have u: "updateHuman fixedEnv (1/60) (Vector3 0 (1/2) 0) 0 walker emptyWorld
       = (walker\<lparr>h_position := groundPosition walker, state := Fleeing,
                  runningFrom := Some (Vector3 0 (1/2) 0)\<rparr>, emptyWorld)"
    by (rule updateHuman_starts_fleeing) (simp_all add: walker_near far, simp_all add: walker_def)
  have v: "vlength (h_velocity walker) = 2"
    by (simp add: walker_def vec_defs)
  show ?thesis
    by (simp add: u v walker_near) (simp add: walker_def)
qed

text \<open>
  C6 (amended): for a pedestrian in the walking state that is not dead and is not killed
  on this tick, with the car closer than its detection radius (and within the range
  \<open>500\<close> of full processing), the state is \<open>Fleeing\<close> at the end of the tick and the
  velocity is the one it had before.  On a tick on which a fleeing pedestrian is updated
  with the car closer than \<open>1.5\<close> times the detection radius, not killed, not exactly at
  the car's position, and the candidate position inside the pedestrians' bound, it stays
  \<open>Fleeing\<close> and its velocity is \<open>fleeSpeed\<close> times the unit vector away from the car,
  of magnitude \<open>|fleeSpeed|\<close>.
\<close>

theorem walking_pedestrian_starts_fleeing:
  "(state h = Walking \<and> \<not> isDead h
      \<and> distanceTo (groundPosition h) cp < detectionRadius h
      \<and> distanceTo (groundPosition h) cp \<le> 500
      \<and> \<not> (distanceTo (groundPosition h) cp < boundingRadius + h_boundingRadius h \<and> cs > 5)
    \<longrightarrow> state (fst (updateHuman e dt cp cs h g)) = Fleeing
        \<and> h_velocity (fst (updateHuman e dt cp cs h g)) = h_velocity h)
   \<and> (state h = Fleeing \<and> \<not> isDead h
      \<and> distanceTo (groundPosition h) cp < detectionRadius h * 1.5
      \<and> distanceTo (groundPosition h) cp \<le> 500
      \<and> \<not> (distanceTo (groundPosition h) cp < boundingRadius + h_boundingRadius h \<and> cs > 5)
      \<and> groundPosition h \<noteq> cp
      \<and> \<not> atBoundary (gcity g) (add (groundPosition h)
              (multiplyScalar (multiplyScalar (normalize (sub (groundPosition h) cp)) (fleeSpeed h)) dt))
    \<longrightarrow> state (fst (updateHuman e dt cp cs h g)) = Fleeing
        \<and> h_velocity (fst (updateHuman e dt cp cs h g))
             = multiplyScalar (normalize (sub (groundPosition h) cp)) (fleeSpeed h)
        \<and> vlength (h_velocity (fst (updateHuman e dt cp cs h g))) = \<bar>fleeSpeed h\<bar>)"
proof (intro conjI impI)
  assume a: "state h = Walking \<and> \<not> isDead h
      \<and> distanceTo (groundPosition h) cp < detectionRadius h
      \<and> distanceTo (groundPosition h) cp \<le> 500
      \<and> \<not> (distanceTo (groundPosition h) cp < boundingRadius + h_boundingRadius h \<and> cs > 5)"
  then have u: "updateHuman e dt cp cs h g
           = (h\<lparr>h_position := groundPosition h, state := Fleeing, runningFrom := Some cp\<rparr>, g)"
    by (intro updateHuman_starts_fleeing) simp_all
  show "state (fst (updateHuman e dt cp cs h g)) = Fleeing" by (simp add: u)
  show "h_velocity (fst (updateHuman e dt cp cs h g)) = h_velocity h" by (simp add: u)
next
  assume a: "state h = Fleeing \<and> \<not> isDead h
      \<and> distanceTo (groundPosition h) cp < detectionRadius h * 1.5
      \<and> distanceTo (groundPosition h) cp \<le> 500
      \<and> \<not> (distanceTo (groundPosition h) cp < boundingRadius + h_boundingRadius h \<and> cs > 5)
      \<and> groundPosition h \<noteq> cp
      \<and> \<not> atBoundary (gcity g) (add (groundPosition h)
              (multiplyScalar (multiplyScalar (normalize (sub (groundPosition h) cp)) (fleeSpeed h)) dt))"
  let ?h1 = "h\<lparr>h_position := groundPosition h\<rparr>"
  from a have u: "updateHuman e dt cp cs h g = (flee (gcity g) (obstacles g) dt cp ?h1, g)"
    by (intro updateHuman_keeps_fleeing) simp_all
  from a have v: "h_velocity (flee (gcity g) (obstacles g) dt cp ?h1)
           = multiplyScalar (normalize (sub (groundPosition h) cp)) (fleeSpeed h)"
    by (subst flee_velocity) simp_all
  from a have "vlength (normalize (sub (groundPosition h) cp)) = 1"
    by (intro vlength_normalize) (simp add: sub_zero_iff)
  then have l: "vlength (multiplyScalar (normalize (sub (groundPosition h) cp)) (fleeSpeed h))
               = \<bar>fleeSpeed h\<bar>"
    by (simp add: vlength_multiplyScalar)
  from a show "state (fst (updateHuman e dt cp cs h g)) = Fleeing"
    by (simp add: u flee_def Let_def animateRunning_def)
  show "h_velocity (fst (updateHuman e dt cp cs h g))
             = multiplyScalar (normalize (sub (groundPosition h) cp)) (fleeSpeed h)"
    by (simp add: u v)
  show "vlength (h_velocity (fst (updateHuman e dt cp cs h g))) = \<bar>fleeSpeed h\<bar>"
    by (simp add: u v l)
qed

lemma sqrt_169_100: "sqrt (169 / 100) = 13 / 10"
  by (rule real_sqrt_unique) (simp_all add: power2_eq_square)

lemma runner_distance: "distanceTo (groundPosition runner) (Vector3 0 (1/2) 0) = 13 / 10"
  by (simp add: groundPosition_def runner_def walker_def vec_defs sqrt_169_100)

lemma runner_inside:
  "\<not> atBoundary (gcity emptyWorld) (add (groundPosition runner)
       (multiplyScalar (multiplyScalar (normalize (sub (groundPosition runner) (Vector3 0 (1/2) 0)))
          (fleeSpeed runner)) (1/20)))"
  by (simp add: atBoundary_def emptyWorld_def sourceCity_def totalSize_def groundPosition_def
      runner_def walker_def vec_defs sqrt_169_100)

theorem walking_pedestrian_starts_fleeing_witness:
  "state (fst (updateHuman fixedEnv (1/60) (Vector3 0 (1/2) 0) 0 walker emptyWorld)) = Fleeing
   \<and> h_velocity (fst (updateHuman fixedEnv (1/60) (Vector3 0 (1/2) 0) 0 walker emptyWorld))
        = Vector3 2 0 0
   \<and> vlength (h_velocity (fst (updateHuman fixedEnv (1/20) (Vector3 0 (1/2) 0) 0 runner emptyWorld)))
        = 6"
proof -
  note t = walking_pedestrian_starts_fleeing
  have far: "distanceTo (groundPosition walker) (Vector3 0 (1/2) 0) \<le> 500"
    using walker_near by (simp add: walker_def)
  have w: "state walker = Walking" "\<not> isDead walker" "h_velocity walker = Vector3 2 0 0"
    by (simp_all add: walker_def)
  have 1: "state (fst (updateHuman fixedEnv (1/60) (Vector3 0 (1/2) 0) 0 walker emptyWorld)) = Fleeing
     \<and> h_velocity (fst (updateHuman fixedEnv (1/60) (Vector3 0 (1/2) 0) 0 walker emptyWorld))
        = Vector3 2 0 0"
    using t [where h = walker and cp = "Vector3 0 (1/2) 0" and cs = 0 and e = fixedEnv
        and dt = "1/60" and g = emptyWorld] walker_near far w
    by simp
  have r: "state runner = Fleeing" "\<not> isDead runner" "fleeSpeed runner = 6"
     "detectionRadius runner = 15"
    by (simp_all add: runner_def walker_def)
  have ne: "groundPosition runner \<noteq> Vector3 0 (1/2) 0"
    by (simp add: groundPosition_def runner_def walker_def Vector3_def)
  have prem: "state runner = Fleeing \<and> \<not> isDead runner
      \<and> distanceTo (groundPosition runner) (Vector3 0 (1/2) 0) < detectionRadius runner * 1.5
      \<and> distanceTo (groundPosition runner) (Vector3 0 (1/2) 0) \<le> 500
      \<and> \<not> (distanceTo (groundPosition runner) (Vector3 0 (1/2) 0)
               < boundingRadius + h_boundingRadius runner \<and> (0::real) > 5)
      \<and> groundPosition runner \<noteq> Vector3 0 (1/2) 0
      \<and> \<not> atBoundary (gcity emptyWorld) (add (groundPosition runner)
              (multiplyScalar (multiplyScalar (normalize (sub (groundPosition runner) (Vector3 0 (1/2) 0)))
                 (fleeSpeed runner)) (1/20)))"
    using runner_inside ne r by (simp add: runner_distance)
  have "vlength (h_velocity (fst (updateHuman fixedEnv (1/20) (Vector3 0 (1/2) 0) 0 runner emptyWorld)))
        = \<bar>fleeSpeed runner\<bar>"
    using t [where h = runner and cp = "Vector3 0 (1/2) 0" and cs = 0 and e = fixedEnv
        and dt = "1/20" and g = emptyWorld] prem
    by blast
  then have 2: "vlength (h_velocity (fst (updateHuman fixedEnv (1/20) (Vector3 0 (1/2) 0) 0 runner emptyWorld)))
        = 6"
    by (simp add: r)
  from 1 2 show ?thesis by blast
qed

subsection \<open>The score\<close>

lemma score_driveCar: "score (driveCar inp dt g) = score g"
  by (simp add: driveCar_def applyBoost_def Let_def)

lemma knockOverBonus_nonneg: "0 \<le> knockOverBonus t"
  by (simp add: knockOverBonus_def)

lemma score_updatePhysicsObject:
  assumes "updatePhysicsObject e dt cp cs cd obj g = Some (obj1, g1)"
  shows "score g \<le> score g1"
proof (cases "isKnockedOver obj")
  case True
  with assms show ?thesis
    by (auto simp: updatePhysicsObject_def Let_def split: if_splits option.splits prod.splits)
next
  case False
  show ?thesis
  proof (cases "hitsProp cp obj \<and> cs * 0.5 > knockoverThreshold (ptype obj)")
    case True
    with False assms have "score g1 = score g + 50 + knockOverBonus (ptype obj)"
      by (auto simp: updatePhysicsObject_def Let_def addScore_def)
    with knockOverBonus_nonneg [of "ptype obj"] show ?thesis by simp
  next
    case False
    with \<open>\<not> isKnockedOver obj\<close> assms show ?thesis
      by (auto simp: updatePhysicsObject_def)
  qed
qed

lemma score_physicsLoop:
  "physicsLoop e dt cp cs cd objs g = Some (objs1, g1) \<Longrightarrow> score g \<le> score g1"
proof (induction objs arbitrary: g objs1 g1)
  case Nil
  then show ?case by simp
next
  case (Cons obj objs)
  from Cons.prems obtain o1 ga os where
    a: "updatePhysicsObject e dt cp cs cd obj g = Some (o1, ga)"
    and b: "physicsLoop e dt cp cs cd objs ga = Some (os, g1)"
    by (auto split: option.splits prod.splits)
  from score_updatePhysicsObject [OF a] Cons.IH [OF b] show ?case by simp
qed

lemma score_updatePhysicsObjects:
  "updatePhysicsObjects e dt g = Some g1 \<Longrightarrow> score g \<le> score g1"
  by (auto simp: updatePhysicsObjects_def split: option.splits prod.splits dest: score_physicsLoop)

lemma pointValue_animateWalking: "pointValue (animateWalking dt h) = pointValue h"
  by (simp add: animateWalking_def)

lemma pointValue_animateRunning: "pointValue (animateRunning dt h) = pointValue h"
  by (simp add: animateRunning_def)

lemma pointValue_pickWalkDirection: "pointValue (pickWalkDirection r k h) = pointValue h"
  by (simp add: pickWalkDirection_def Let_def)

lemma pointValue_updateWalkingHuman:
  "pointValue (fst (updateWalkingHuman r ct obs dt h k)) = pointValue h"
  by (simp add: updateWalkingHuman_def Let_def pointValue_animateWalking
      pointValue_pickWalkDirection if_distrib [where f = pointValue])

lemma pointValue_flee: "pointValue (flee ct obs dt cp h) = pointValue h"
  by (simp add: flee_def Let_def pointValue_animateRunning if_distrib [where f = pointValue])

lemma pointValue_updateHuman:
  "pointValue (fst (updateHuman e dt cp cs h g)) = pointValue h"
  by (simp add: updateHuman_def Let_def killHuman_def case_prod_beta pointValue_flee
      pointValue_animateWalking pointValue_updateWalkingHuman
      if_distrib [where f = pointValue] if_distrib [where f = fst])

lemma score_updateHuman:
  "0 \<le> pointValue h \<Longrightarrow> score g \<le> score (snd (updateHuman e dt cp cs h g))"
  by (simp add: updateHuman_def Let_def killHuman_def addScore_def case_prod_beta
      if_distrib [where f = score] if_distrib [where f = snd])

lemma humansLoop_score:
  "(\<forall>h \<in> set hs. 0 \<le> pointValue h) \<Longrightarrow> score g \<le> score (snd (humansLoop e dt cp cs hs g))"
proof (induction hs arbitrary: g)
  case Nil
  then show ?case by simp
next
  case (Cons h hs)
  obtain h1 g1 where u: "updateHuman e dt cp cs h g = (h1, g1)"
    by (cases "updateHuman e dt cp cs h g")
  obtain hs2 g2 where l: "humansLoop e dt cp cs hs g1 = (hs2, g2)"
    by (cases "humansLoop e dt cp cs hs g1")
  from Cons.prems have "0 \<le> pointValue h" by simp
  from score_updateHuman [OF this, of g e dt cp cs] u have "score g \<le> score g1" by simp
  moreover from Cons.IH [of g1] Cons.prems l have "score g1 \<le> score g2" by simp
  ultimately show ?case using u l by simp
qed

lemma humansLoop_pointValue:
  "map pointValue (fst (humansLoop e dt cp cs hs g)) = map pointValue hs"
proof (induction hs arbitrary: g)
  case Nil
  then show ?case by simp
next
  case (Cons h hs)
  obtain h1 g1 where u: "updateHuman e dt cp cs h g = (h1, g1)"
    by (cases "updateHuman e dt cp cs h g")
  obtain hs2 g2 where l: "humansLoop e dt cp cs hs g1 = (hs2, g2)"
    by (cases "humansLoop e dt cp cs hs g1")
  from pointValue_updateHuman [of e dt cp cs h g] u have "pointValue h1 = pointValue h" by simp
  moreover from Cons.IH [of g1] l have "map pointValue hs2 = map pointValue hs" by simp
  ultimately show ?case using u l by simp
qed

lemma score_updateHumans:
  "(\<forall>h \<in> set (humans g). 0 \<le> pointValue h) \<Longrightarrow> score g \<le> score (updateHumans e dt g)"
  using humansLoop_score [of "humans g" g e dt "position (gcar g)" "getSpeed (gcar g)"]
  by (simp add: updateHumans_def case_prod_beta)

lemma pointValue_updateHumans:
  "map pointValue (humans (updateHumans e dt g)) = map pointValue (humans g)"
  using humansLoop_pointValue [of e dt "position (gcar g)" "getSpeed (gcar g)" "humans g" g]
  by (simp add: updateHumans_def case_prod_beta)

lemma nonneg_points_map:
  "(\<forall>h \<in> set hs. 0 \<le> pointValue h) \<longleftrightarrow> (\<forall>v \<in> set (map pointValue hs). 0 \<le> v)"
  by auto

lemma gameUpdate_score:
  assumes "\<forall>h \<in> set (humans g). 0 \<le> pointValue h" and "gameUpdate e inp dt g = Some g'"
  shows "score g \<le> score g'" and "\<forall>h \<in> set (humans g'). 0 \<le> pointValue h"
proof -
  from assms(2) obtain g6 where
    p: "updatePhysicsObjects e dt (driveCar inp dt g) = Some g6"
    and g': "g' = updateHumans e dt g6"
    by (auto simp: gameUpdate_def split: option.splits)
  from humans_updatePhysicsObjects [OF p] have h6: "humans g6 = humans g"
    by (simp add: humans_driveCar)
  from score_updatePhysicsObjects [OF p] have "score g \<le> score g6"
    by (simp add: score_driveCar)
  moreover from assms(1) h6 have "score g6 \<le> score (updateHumans e dt g6)"
    by (intro score_updateHumans) simp
  ultimately show "score g \<le> score g'" by (simp add: g')
  have "map pointValue (humans g') = map pointValue (humans g)"
    by (simp add: g' pointValue_updateHumans h6)
  with assms(1) show "\<forall>h \<in> set (humans g'). 0 \<le> pointValue h"
    unfolding nonneg_points_map by simp
qed

text \<open>
  C10: the score never decreases.  \<open>addScore\<close> is the only function that writes the
  score; its call sites pass \<open>50\<close> for a knocked-over prop, \<open>75\<close> more for a barrel and
  \<open>60\<close> more for a crate, and the \<open>pointValue\<close> of a killed pedestrian.  When no
  pedestrian has a negative point value (the city gives each the value \<open>100\<close>), the score
  at the end of any run of frames and key events is at least the score at its start; a
  single frame is the run of length one.
\<close>

theorem score_never_decreases:
  assumes "\<forall>h \<in> set (humans g). 0 \<le> pointValue h" and "play e g evs = Some g'"
  shows "score g \<le> score g'"
  using assms
proof (induction evs arbitrary: g)
  case Nil
  then show ?case by simp
next
  case (Cons ev evs)
  show ?case
  proof (cases ev)
    case (Frame inp dt)
    with Cons.prems(2) obtain g1 where
      u: "gameUpdate e inp dt g = Some g1" and r: "play e g1 evs = Some g'"
      by (auto split: option.splits)
    from gameUpdate_score [OF Cons.prems(1) u]
    have "score g \<le> score g1" and "\<forall>h \<in> set (humans g1). 0 \<le> pointValue h" by simp_all
    with Cons.IH [OF _ r] show ?thesis by simp
  next
    case SpacePressed
    with Cons.prems Cons.IH [of "g\<lparr>gboost := spaceKeyDown (gboost g)\<rparr>"] show ?thesis by simp
  next
    case SpaceReleased
    with Cons.prems Cons.IH [of "g\<lparr>gboost := spaceKeyUp (gboost g)\<rparr>"] show ?thesis by simp
  qed
qed

lemma updateHuman_kill_score:
  assumes "\<not> isDead h" and "distanceTo (groundPosition h) cp < boundingRadius + h_boundingRadius h"
    and "cs > 5"
  shows "snd (updateHuman e dt cp cs h g) = addScore (pointValue h) g"
  using assms by (simp add: updateHuman_def killHuman_def Let_def)

lemma bystander_near:
  "distanceTo (groundPosition bystander) (Vector3 0 (1/2) 86)
     < boundingRadius + h_boundingRadius bystander"
  using sqrt_5_4
  by (simp add: groundPosition_def bystander_def walker_def vec_defs car_consts)

lemma crowd_score:
  "score (updateHumans e (1/20) (crowdNearEdge\<lparr>gcar := edgeCarBounced\<rparr>)) = 100"
proof -
  let ?G = "crowdNearEdge\<lparr>gcar := edgeCarBounced\<rparr>"
  have hs: "humans ?G = [corpse, bystander]" by (simp add: crowdNearEdge_def)
  have p: "position (gcar ?G) = Vector3 0 (1/2) 86" by (simp add: edgeCarBounced_def)
  have s: "getSpeed (gcar ?G) = 16" by (simp add: getSpeed_def edgeCarBounced_def)
  have sc: "score ?G = 0" by (simp add: crowdNearEdge_def carNearEdge_def emptyWorld_def)
  have c: "updateHuman e (1/20) (Vector3 0 (1/2) 86) 16 corpse ?G = (corpse, ?G)"
    by (rule updateHuman_dead) (simp add: corpse_def)
  have b: "snd (updateHuman e (1/20) (Vector3 0 (1/2) 86) 16 bystander ?G)
             = addScore (pointValue bystander) ?G"
    by (rule updateHuman_kill_score) (simp_all add: bystander_near, simp add: bystander_def walker_def)
  have "score (snd (updateHuman e (1/20) (Vector3 0 (1/2) 86) 16 bystander ?G)) = 100"
    unfolding b by (simp add: addScore_def sc) (simp add: bystander_def walker_def)
  then show ?thesis
    unfolding updateHumans_def hs p s
    by (simp add: c case_prod_beta)
qed

theorem score_never_decreases_witness:
  "play fixedEnv crowdNearEdge [Frame forwardKey (1/20)]
     = Some (updateHumans fixedEnv (1/20) (crowdNearEdge\<lparr>gcar := edgeCarBounced\<rparr>))
   \<and> score crowdNearEdge = 0
   \<and> score (updateHumans fixedEnv (1/20) (crowdNearEdge\<lparr>gcar := edgeCarBounced\<rparr>)) = 100
   \<and> score crowdNearEdge
        \<le> score (updateHumans fixedEnv (1/20) (crowdNearEdge\<lparr>gcar := edgeCarBounced\<rparr>))"
proof -
  have pl: "play fixedEnv crowdNearEdge [Frame forwardKey (1/20)]
     = Some (updateHumans fixedEnv (1/20) (crowdNearEdge\<lparr>gcar := edgeCarBounced\<rparr>))"
    by (simp add: crowd_tick)
  have pts: "\<forall>h \<in> set (humans crowdNearEdge). 0 \<le> pointValue h"
    by (simp add: crowdNearEdge_def corpse_def bystander_def walker_def)
  have z: "score crowdNearEdge = 0"
    by (simp add: crowdNearEdge_def carNearEdge_def emptyWorld_def)
  from score_never_decreases [OF pts pl] pl z crowd_score [of fixedEnv] show ?thesis by simp
qed

subsection \<open>Speed limits\<close>

lemma speed_storeLastValid: "speed (storeLastValid c) = speed c"
  and isAirborne_storeLastValid: "isAirborne (storeLastValid c) = isAirborne c"
  by (simp_all add: storeLastValid_def)

lemma speed_airPitch: "speed (airPitch inp dt c) = speed c"
  by (simp add: airPitch_def)

lemma speed_airRoll: "speed (airRoll inp dt c) = speed c"
  by (simp add: airRoll_def)

lemma airDrag_limits:
  "0 \<le> dt \<Longrightarrow> withinSpeedLimits (speed c) \<Longrightarrow> withinSpeedLimits (speed (airDrag dt c))"
  by (auto simp: airDrag_def withinSpeedLimits_def car_consts)

lemma updateSpeed_limits:
  assumes "0 \<le> dt" and "withinSpeedLimits (speed c)"
  shows "withinSpeedLimits (speed (updateSpeed inp dt c))"
proof (cases "isAirborne c")
  case True
  with airDrag_limits [OF assms] show ?thesis
    by (simp add: updateSpeed_def speed_airPitch speed_airRoll)
next
  case False
  with assms show ?thesis
    by (auto simp: updateSpeed_def withinSpeedLimits_def car_consts)
qed

lemma updateSpeed_forward:
  assumes "0 \<le> dt" and "\<not> isAirborne c" and "keyUp inp" and "- maxSpeed / 2 \<le> speed c"
  shows "withinSpeedLimits (speed (updateSpeed inp dt c))"
  using assms by (auto simp: updateSpeed_def withinSpeedLimits_def car_consts)

lemma updateSpeed_reverse:
  assumes "0 \<le> dt" and "\<not> isAirborne c" and "\<not> keyUp inp" and "keyDown inp"
    and "speed c \<le> maxSpeed"
  shows "withinSpeedLimits (speed (updateSpeed inp dt c))"
  using assms by (auto simp: updateSpeed_def withinSpeedLimits_def car_consts)

lemma speed_updateSteering: "speed (updateSteering inp dt c) = speed c"
  by (simp add: updateSteering_def Let_def)

lemma speed_updateDrift: "speed (updateDrift inp dt b c) = speed c"
  by (simp add: updateDrift_def createDriftMarks_def Let_def)

lemma speed_carMoved:
  "speed (carMoved inp dt c) = speed (updateSpeed inp dt (storeLastValid c))"
  by (simp add: carMoved_def Let_def speed_updateDrift speed_updateSteering)

lemma bounce_limits:
  "withinSpeedLimits (speed c) \<Longrightarrow> withinSpeedLimits (speed (bounce cn c))"
  by (cases cn) (auto simp: bounce_def Let_def withinSpeedLimits_def car_consts)

lemma resolveCollision_limits:
  assumes "withinSpeedLimits (speed c)"
  shows "withinSpeedLimits (speed (resolveCollision dt col c))"
proof (cases col)
  case NotColliding
  with assms show ?thesis by (simp add: resolveCollision_def)
next
  case (Colliding ob cn)
  from assms have "withinSpeedLimits (speed (bounce cn (c\<lparr>colliding := True\<rparr>)))"
    by (intro bounce_limits) simp
  with Colliding show ?thesis
    by (simp add: resolveCollision_def speed_landOnObstacle speed_moveToSafePosition)
qed

lemma updateVertical_limits:
  "withinSpeedLimits (speed c) \<Longrightarrow> withinSpeedLimits (speed (updateVertical dt c))"
  by (auto simp: updateVertical_def Let_def withinSpeedLimits_def car_consts)

lemma carUpdate_limits:
  assumes "withinSpeedLimits (speed (updateSpeed inp dt (storeLastValid c)))"
  shows "withinSpeedLimits (speed (carUpdate inp dt obs c))"
proof -
  from assms have "withinSpeedLimits (speed (carMoved inp dt c))" by (simp add: speed_carMoved)
  then have "withinSpeedLimits (speed (carResolved inp dt obs c))"
    unfolding carResolved_def Let_def by (rule resolveCollision_limits)
  then show ?thesis unfolding carUpdate_def by (rule updateVertical_limits)
qed

text \<open>
  The run \<open>boostRun\<close> in the empty world: the boost is held for two frames of half a
  second with forward input, then all keys are released for a third frame.
\<close>

lemma enforceBoundary_inside: "\<not> outOfBounds ct (position c) \<Longrightarrow> enforceBoundary ct c = c"
  by (simp add: enforceBoundary_def Let_def)

lemma ramps_nil_carOnZ: "checkRampInteractions [] (carOnZ z z0 v s) = carOnZ z z0 v s"
  by (simp add: checkRampInteractions_def carOnZ_def newCar_def getSpeed_def Vector3_def)

lemma inside_carOnZ: "\<bar>z\<bar> \<le> 85 \<Longrightarrow> \<not> outOfBounds sourceCity (position (carOnZ z z0 v s))"
  by (simp add: outOfBounds_def boundLimit_def totalSize_def sourceCity_def carOnZ_def Vector3_def)

lemma run1_car:
  "carUpdate forwardKey (1/2) [] newCar = carOnZ (25/4) 0 (25/2) (25/2)"
proof -
  have m: "carMoved forwardKey (1/2) newCar = newCar\<lparr>speed := 25/2, velocity := Vector3 0 0 (25/2)\<rparr>"
    by (simp add: newCar_def forwardKey_def car_defs vec_defs car_consts Let_def)
  show ?thesis
    unfolding carUpdate_def carResolved_def Let_def m
    by (simp add: detectCollision_def resolveCollision_def newPosition_def updateVertical_def
        relax_def carOnZ_def newCar_def vec_defs)
qed

lemma run1_boost:
  "stepMultiplier (1/2) (updateBoost (1/2) (boostWith 100 True 1)) = boostWith 85 True (9/5)"
  by (simp add: stepMultiplier_def updateBoost_def targetMultiplier_def boostWith_def
      setupSpeedBoost_def)

lemma run2_car:
  "carUpdate forwardKey (1/2) [] (carOnZ (25/4) 0 (25/2) (45/2)) = carOnZ (95/4) (25/4) 35 35"
proof -
  have m: "carMoved forwardKey (1/2) (carOnZ (25/4) 0 (25/2) (45/2))
             = carOnZ (25/4) (25/4) 35 35"
    by (simp add: carOnZ_def newCar_def forwardKey_def car_defs vec_defs car_consts Let_def)
  show ?thesis
    unfolding carUpdate_def carResolved_def Let_def m
    by (simp add: detectCollision_def resolveCollision_def newPosition_def updateVertical_def
        relax_def carOnZ_def newCar_def vec_defs)
qed

lemma run2_boost:
  "stepMultiplier (1/2) (updateBoost (1/2) (boostWith 85 True (9/5))) = boostWith 70 True (9/5)"
  by (simp add: stepMultiplier_def updateBoost_def targetMultiplier_def boostWith_def
      setupSpeedBoost_def)

lemma run3_car:
  "carUpdate noKeys (1/2) [] (carOnZ (95/4) (25/4) 35 63) = carOnZ (213/4) (95/4) 59 59"
proof -
  have m: "carMoved noKeys (1/2) (carOnZ (95/4) (25/4) 35 63) = carOnZ (95/4) (95/4) 59 59"
    by (simp add: carOnZ_def newCar_def noKeys_def car_defs vec_defs car_consts Let_def)
  show ?thesis
    unfolding carUpdate_def carResolved_def Let_def m
    by (simp add: detectCollision_def resolveCollision_def newPosition_def updateVertical_def
        relax_def carOnZ_def newCar_def vec_defs)
qed

lemma run3_boost:
  "stepMultiplier (1/2) (updateBoost (1/2) (boostWith 70 False (9/5))) = boostWith 75 False 1"
  by (simp add: stepMultiplier_def updateBoost_def targetMultiplier_def boostWith_def
      setupSpeedBoost_def)

lemma carOnZ_simps:
  "isAirborne (carOnZ z z0 v s) = False"
  "speed (carOnZ z z0 v s) = s"
  "(carOnZ z z0 v s)\<lparr>speed := s'\<rparr> = carOnZ z z0 v s'"
  by (simp_all add: carOnZ_def newCar_def)

lemma enforce_carOnZ:
  "\<bar>z\<bar> \<le> 85 \<Longrightarrow> enforceBoundary sourceCity (carOnZ z z0 v s) = carOnZ z z0 v s"
  by (rule enforceBoundary_inside) (rule inside_carOnZ)

lemma worldWith_simps:
  "gcar (worldWith c b) = c" "gboost (worldWith c b) = b" "obstacles (worldWith c b) = []"
  "ramps (worldWith c b) = []" "gcity (worldWith c b) = sourceCity"
  "physicsObjects (worldWith c b) = []" "humans (worldWith c b) = []"
  "(worldWith c b)\<lparr>gboost := b'\<rparr> = worldWith c b'"
  "(worldWith c b)\<lparr>gcar := c'\<rparr> = worldWith c' b"
  by (simp_all add: worldWith_def emptyWorld_def)

lemma boostWith_multiplier: "currentMultiplier (boostWith a on m) = m"
  by (simp add: boostWith_def)

lemmas run_simps = driveCar_def applyBoost_def Let_def worldWith_simps carOnZ_simps
  boostWith_multiplier enforce_carOnZ ramps_nil_carOnZ

lemma frame_worldWith:
  "gameUpdate e inp dt (worldWith c b) = Some (driveCar inp dt (worldWith c b))"
proof -
  have "humans (driveCar inp dt (worldWith c b)) = []"
    by (simp add: humans_driveCar worldWith_simps)
  then show ?thesis
    by (simp add: gameUpdate_no_props worldWith_simps updateHumans_nil)
qed

lemma run1: "driveCar forwardKey (1/2) (worldWith newCar (boostWith 100 True 1))
               = worldWith (carOnZ (25/4) 0 (25/2) (45/2)) (boostWith 85 True (9/5))"
  by (simp add: run_simps run1_car run1_boost)

lemma run2: "driveCar forwardKey (1/2) (worldWith (carOnZ (25/4) 0 (25/2) (45/2)) (boostWith 85 True (9/5)))
               = worldWith (carOnZ (95/4) (25/4) 35 63) (boostWith 70 True (9/5))"
  by (simp add: run_simps run2_car run2_boost)

lemma run3: "driveCar noKeys (1/2) (worldWith (carOnZ (95/4) (25/4) 35 63) (boostWith 70 False (9/5)))
               = worldWith (carOnZ (213/4) (95/4) 59 59) (boostWith 75 False 1)"
  by (simp add: run_simps run3_car run3_boost)

lemma press: "spaceKeyDown (boostWith 100 False 1) = boostWith 100 True 1"
  by (simp add: boostWith_def spaceKeyDown_def setupSpeedBoost_def)

lemma release: "spaceKeyUp (boostWith a on m) = boostWith a False m"
  by (simp add: boostWith_def spaceKeyUp_def)

lemma emptyWorld_worldWith: "emptyWorld = worldWith newCar (boostWith 100 False 1)"
  by (simp add: worldWith_def boostWith_def emptyWorld_def setupSpeedBoost_def)

lemma play_two_frames:
  "play e emptyWorld [SpacePressed, Frame forwardKey (1/2), Frame forwardKey (1/2)]
     = Some (worldWith (carOnZ (95/4) (25/4) 35 63) (boostWith 70 True (9/5)))"
  unfolding emptyWorld_worldWith
  by (simp add: press frame_worldWith run1 run2 worldWith_simps)

lemma play_boostRun:
  "play e emptyWorld boostRun = Some (worldWith (carOnZ (213/4) (95/4) 59 59) (boostWith 75 False 1))"
  unfolding emptyWorld_worldWith boostRun_def
  by (simp add: press release frame_worldWith run1 run2 run3 worldWith_simps)

text \<open>
  C2 (as stated): the speed exceeds \<open>maxSpeed\<close> only during the tick on which a boost or
  bounce is applied and is clamped again on the following tick.  In \<open>boostRun\<close> the
  second frame ends with speed \<open>63\<close> (boost multiplier \<open>1.8\<close>).  On the third frame the
  multiplier is back at \<open>1\<close>, so no boost is applied, nothing is hit, no key is held, and
  the speed only decays at the passive rate: the frame ends with speed \<open>59\<close>, above
  \<open>maxSpeed = 40\<close>.
\<close>

theorem excess_speed_survives_next_tick:
  "map_option (\<lambda>g. speed (gcar g))
       (play fixedEnv emptyWorld [SpacePressed, Frame forwardKey (1/2), Frame forwardKey (1/2)])
     = Some 63
   \<and> map_option (\<lambda>g. (speed (gcar g), currentMultiplier (gboost g), colliding (gcar g)))
       (play fixedEnv emptyWorld boostRun) = Some (59, 1, False)
   \<and> maxSpeed = 40"
  unfolding play_two_frames play_boostRun
  by (simp add: worldWith_simps carOnZ_simps boostWith_multiplier maxSpeed_def)
    (simp add: carOnZ_def newCar_def)

text \<open>
  The rest of the tick.  The boost changes the speed only when its multiplier is above
  \<open>1.01\<close>, the boundary bounce and a knocked-over prop scale the speed by a factor
  between \<open>0\<close> and \<open>1\<close>, \<open>checkRampInteractions\<close> changes it only when the car is over
  a ramp or launchpad, and the pedestrians do not touch the car.
\<close>

lemma scale_limits:
  assumes "withinSpeedLimits s" and "0 \<le> f" and "f \<le> 1"
  shows "withinSpeedLimits (s * f)"
proof (cases "0 \<le> s")
  case True
  with assms have "s * f \<le> s" "0 \<le> s * f" by (simp_all add: mult_left_le)
  with assms(1) show ?thesis by (simp add: withinSpeedLimits_def maxSpeed_def)
next
  case False
  with assms have "s \<le> s * f" "s * f \<le> 0"
    by (simp_all add: mult_le_cancel_left2 mult_nonpos_nonneg)
  with assms(1) show ?thesis by (simp add: withinSpeedLimits_def maxSpeed_def)
qed

lemma gboost_driveCar:
  "gboost (driveCar inp dt g) = stepMultiplier dt (updateBoost dt (gboost g))"
  by (simp add: driveCar_def applyBoost_def Let_def)

lemma applyBoost_idle:
  "currentMultiplier (stepMultiplier dt (gboost g)) \<le> 1.01 \<Longrightarrow> gcar (applyBoost dt g) = gcar g"
  by (simp add: applyBoost_def Let_def)

lemma gcity_applyBoost: "gcity (applyBoost dt g) = gcity g"
  and ramps_applyBoost: "ramps (applyBoost dt g) = ramps g"
  by (simp_all add: applyBoost_def Let_def)

lemma enforceBoundary_limits:
  "withinSpeedLimits (speed c) \<Longrightarrow> withinSpeedLimits (speed (enforceBoundary ct c))"
  by (auto simp: enforceBoundary_def Let_def withinSpeedLimits_def car_consts)

lemma scanRamps_off:
  "\<not> onAnyRamp (scanRamps p d s rs st) \<Longrightarrow> scanRamps p d s rs st = st"
proof (induction rs arbitrary: st)
  case Nil
  then show ?case by simp
next
  case (Cons r rs)
  show ?case
  proof (cases r)
    case (Launchpad q rad h j)
    with Cons show ?thesis by (auto simp add: onAnyRamp_rideLaunchpad split: if_splits)
  next
    case (Ramp q a w l h j)
    show ?thesis
    proof (cases "onDirectionalRamp p r")
      case True
      with Cons.prems Ramp have n: "\<not> onAnyRamp (scanRamps p d s rs (rideRamp p d s r st))"
        by simp
      from Cons.IH [OF n] n have "\<not> onAnyRamp (rideRamp p d s r st)" by simp
      then show ?thesis by (simp add: onAnyRamp_rideRamp)
    next
      case False
      with Cons.prems Ramp have n: "\<not> onAnyRamp (scanRamps p d s rs st)" by simp
      from Cons.IH [OF n] False Ramp show ?thesis by simp
    qed
  qed
qed

lemma onRamp_checkRampInteractions:
  "onRamp (checkRampInteractions rs c)
     = onAnyRamp (scanRamps (position c) (direction c) (getSpeed c) rs
         \<lparr>scanCar = c, onAnyRamp = False, currentRampHeight = 0, scanRamp = None\<rparr>)"
  by (simp add: checkRampInteractions_def Let_def)

lemma speed_checkRampInteractions_off:
  assumes "\<not> onRamp (checkRampInteractions rs c)"
  shows "speed (checkRampInteractions rs c) = speed c"
proof -
  from assms have "\<not> onAnyRamp (scanRamps (position c) (direction c) (getSpeed c) rs
         \<lparr>scanCar = c, onAnyRamp = False, currentRampHeight = 0, scanRamp = None\<rparr>)"
    by (simp add: onRamp_checkRampInteractions)
  from scanRamps_off [OF this] show ?thesis by (simp add: checkRampInteractions_def Let_def)
qed

lemma onRamp_no_ramps: "\<not> onRamp (checkRampInteractions [] c)"
  by (simp add: checkRampInteractions_def)

lemma gcar_driveCar:
  "gcar (driveCar inp dt g)
     = checkRampInteractions (ramps g)
         (enforceBoundary (gcity g)
            (gcar (applyBoost dt
               (g\<lparr>gboost := updateBoost dt (gboost g),
                   gcar := carUpdate inp dt (obstacles g) (gcar g)\<rparr>))))"
  by (simp add: driveCar_def Let_def gcity_applyBoost ramps_applyBoost)

lemma speed_driveCar:
  assumes "currentMultiplier (gboost (driveCar inp dt g)) \<le> 1.01"
    and "\<not> onRamp (gcar (driveCar inp dt g))"
  shows "speed (gcar (driveCar inp dt g))
           = speed (enforceBoundary (gcity g) (carUpdate inp dt (obstacles g) (gcar g)))"
proof -
  let ?g2 = "g\<lparr>gboost := updateBoost dt (gboost g),
               gcar := carUpdate inp dt (obstacles g) (gcar g)\<rparr>"
  from assms(1) have "currentMultiplier (stepMultiplier dt (gboost ?g2)) \<le> 1.01"
    by (simp add: gboost_driveCar)
  then have b: "gcar (applyBoost dt ?g2) = carUpdate inp dt (obstacles g) (gcar g)"
    by (simp add: applyBoost_idle)
  from assms(2) show ?thesis
    unfolding gcar_driveCar b by (rule speed_checkRampInteractions_off)
qed

lemma updatePhysicsObject_car:
  assumes "updatePhysicsObject e dt cp cs cd obj g = Some (obj1, g1)" and "0 \<le> mass obj"
  shows "gboost g1 = gboost g \<and> onRamp (gcar g1) = onRamp (gcar g)
     \<and> (withinSpeedLimits (speed (gcar g)) \<longrightarrow> withinSpeedLimits (speed (gcar g1)))"
proof (cases "isKnockedOver obj")
  case True
  with assms(1) show ?thesis
    by (auto simp: updatePhysicsObject_def Let_def split: if_splits option.splits prod.splits)
next
  case False
  show ?thesis
  proof (cases "hitsProp cp obj \<and> cs * 0.5 > knockoverThreshold (ptype obj)")
    case True
    with False assms(1) have
      "gboost g1 = gboost g" "onRamp (gcar g1) = onRamp (gcar g)"
      "speed (gcar g1) = speed (gcar g) * (1 - min 0.8 (mass obj / 100))"
      by (auto simp: updatePhysicsObject_def Let_def addScore_def split: if_splits)
    moreover from assms(2) have "0 \<le> 1 - min 0.8 (mass obj / 100)" "1 - min 0.8 (mass obj / 100) \<le> 1"
      by simp_all
    ultimately show ?thesis by (simp add: scale_limits)
  next
    case False
    with \<open>\<not> isKnockedOver obj\<close> assms(1) show ?thesis
      by (auto simp: updatePhysicsObject_def)
  qed
qed

lemma physicsLoop_car:
  "physicsLoop e dt cp cs cd objs g = Some (objs1, g1) \<Longrightarrow> \<forall>obj \<in> set objs. 0 \<le> mass obj \<Longrightarrow>
   gboost g1 = gboost g \<and> onRamp (gcar g1) = onRamp (gcar g)
     \<and> (withinSpeedLimits (speed (gcar g)) \<longrightarrow> withinSpeedLimits (speed (gcar g1)))"
proof (induction objs arbitrary: g objs1 g1)
  case Nil
  then show ?case by simp
next
  case (Cons obj objs)
  from Cons.prems(1) obtain o1 ga os where
    a: "updatePhysicsObject e dt cp cs cd obj g = Some (o1, ga)"
    and b: "physicsLoop e dt cp cs cd objs ga = Some (os, g1)"
    by (auto split: option.splits prod.splits)
  from Cons.prems(2) have m: "0 \<le> mass obj" "\<forall>obj \<in> set objs. 0 \<le> mass obj" by simp_all
  from updatePhysicsObject_car [OF a m(1)] Cons.IH [OF b m(2)] show ?case by simp
qed

lemma updatePhysicsObjects_car:
  assumes "updatePhysicsObjects e dt g = Some g1" and "\<forall>obj \<in> set (physicsObjects g). 0 \<le> mass obj"
  shows "gboost g1 = gboost g \<and> onRamp (gcar g1) = onRamp (gcar g)
     \<and> (withinSpeedLimits (speed (gcar g)) \<longrightarrow> withinSpeedLimits (speed (gcar g1)))"
proof -
  from assms(1) obtain objs g2 where
    l: "physicsLoop e dt (position (gcar g)) (getSpeed (gcar g)) (direction (gcar g))
          (physicsObjects g) g = Some (objs, g2)"
    and g1: "g1 = g2\<lparr>physicsObjects := objs\<rparr>"
    by (auto simp: updatePhysicsObjects_def split: option.splits prod.splits)
  from physicsLoop_car [OF l assms(2)] g1 show ?thesis by simp
qed

lemma updateHuman_boost: "gboost (snd (updateHuman e dt cp cs h g)) = gboost g"
  by (simp add: updateHuman_def killHuman_def addScore_def Let_def split: prod.splits)

lemma gboost_updateHumans: "gboost (updateHumans e dt g) = gboost g"
proof -
  have "gboost (snd (humansLoop e dt cp cs hs g0)) = gboost g0" for cp cs hs g0
  proof (induction hs arbitrary: g0)
    case Nil
    then show ?case by simp
  next
    case (Cons h hs)
    obtain h1 g1 where u: "updateHuman e dt cp cs h g0 = (h1, g1)" by (cases "updateHuman e dt cp cs h g0")
    obtain hs2 g2 where l: "humansLoop e dt cp cs hs g1 = (hs2, g2)" by (cases "humansLoop e dt cp cs hs g1")
    from updateHuman_boost [of e dt cp cs h g0] u have "gboost g1 = gboost g0" by simp
    moreover from Cons.IH [of g1] l have "gboost g2 = gboost g1" by simp
    ultimately show ?case using u l by simp
  qed
  from this [of "position (gcar g)" "getSpeed (gcar g)" "humans g" g]
  show ?thesis by (auto simp: updateHumans_def split: prod.splits)
qed

lemma physicsObjects_driveCar: "physicsObjects (driveCar inp dt g) = physicsObjects g"
  and gcity_driveCar: "gcity (driveCar inp dt g) = gcity g"
  by (simp_all add: driveCar_def applyBoost_def Let_def)

lemma tick_limits:
  assumes u: "gameUpdate e inp dt g = Some g'"
    and cm: "currentMultiplier (gboost g') \<le> 1.01"
    and nr: "\<not> onRamp (gcar g')"
    and m: "\<forall>obj \<in> set (physicsObjects g). 0 \<le> mass obj"
    and s: "withinSpeedLimits (speed (updateSpeed inp dt (storeLastValid (gcar g))))"
  shows "withinSpeedLimits (speed (gcar g'))"
proof -
  let ?d = "driveCar inp dt g"
  from u obtain g6 where
    p: "updatePhysicsObjects e dt ?d = Some g6" and g': "g' = updateHumans e dt g6"
    by (auto simp: gameUpdate_def split: option.splits)
  from m have "\<forall>obj \<in> set (physicsObjects ?d). 0 \<le> mass obj"
    by (simp add: physicsObjects_driveCar)
  from updatePhysicsObjects_car [OF p this] have
    b: "gboost g6 = gboost ?d" and r: "onRamp (gcar g6) = onRamp (gcar ?d)"
    and k: "withinSpeedLimits (speed (gcar ?d)) \<Longrightarrow> withinSpeedLimits (speed (gcar g6))"
    by simp_all
  from cm g' b have cm': "currentMultiplier (gboost ?d) \<le> 1.01" by (simp add: gboost_updateHumans)
  from nr g' r have nr': "\<not> onRamp (gcar ?d)" by (simp add: gcar_updateHumans)
  from s have "withinSpeedLimits (speed (carUpdate inp dt (obstacles g) (gcar g)))"
    by (rule carUpdate_limits)
  then have "withinSpeedLimits (speed (enforceBoundary (gcity g) (carUpdate inp dt (obstacles g) (gcar g))))"
    by (rule enforceBoundary_limits)
  then have "withinSpeedLimits (speed (gcar ?d))" by (simp add: speed_driveCar [OF cm' nr'])
  from k [OF this] g' show ?thesis by (simp add: gcar_updateHumans)
qed

text \<open>
  C2 (amended): for every \<open>deltaTime \<ge> 0\<close> and every key state, a full tick of
  \<open>Game.update\<close> that applies no boost (the multiplier is at most \<open>1.01\<close> after its
  update) and ends with the car over no ramp or launchpad keeps the speed between
  \<open>-maxSpeed/2\<close> and \<open>maxSpeed\<close> if it was so before the tick, collisions and boundary
  bounces included; on such a tick, forward input on the ground brings any speed of at
  least \<open>-maxSpeed/2\<close> into these limits, and reverse input on the ground any speed of
  at most \<open>maxSpeed\<close>.  The props have non-negative mass, as all props of the city have.
  The ticks left out are those on which the speed is raised: by the boost multiplier, or
  by a ramp or launchpad under the car.
\<close>

theorem tick_keeps_speed_limits:
  assumes "gameUpdate e inp dt g = Some g'" and "0 \<le> dt"
    and "currentMultiplier (gboost g') \<le> 1.01"
    and "\<not> onRamp (gcar g')"
    and "\<forall>obj \<in> set (physicsObjects g). 0 \<le> mass obj"
  shows "(withinSpeedLimits (speed (gcar g)) \<longrightarrow> withinSpeedLimits (speed (gcar g')))
     \<and> (\<not> isAirborne (gcar g) \<and> keyUp inp \<and> - maxSpeed / 2 \<le> speed (gcar g)
          \<longrightarrow> withinSpeedLimits (speed (gcar g')))
     \<and> (\<not> isAirborne (gcar g) \<and> \<not> keyUp inp \<and> keyDown inp \<and> speed (gcar g) \<le> maxSpeed
          \<longrightarrow> withinSpeedLimits (speed (gcar g')))"
proof (intro conjI impI)
  note t = tick_limits [OF assms(1,3,4,5)]
  {
    assume "withinSpeedLimits (speed (gcar g))"
    with assms(2) have "withinSpeedLimits (speed (updateSpeed inp dt (storeLastValid (gcar g))))"
      by (intro updateSpeed_limits) (simp_all add: speed_storeLastValid)
    then show "withinSpeedLimits (speed (gcar g'))" by (rule t)
  next
    assume "\<not> isAirborne (gcar g) \<and> keyUp inp \<and> - maxSpeed / 2 \<le> speed (gcar g)"
    with assms(2) have "withinSpeedLimits (speed (updateSpeed inp dt (storeLastValid (gcar g))))"
      by (intro updateSpeed_forward) (simp_all add: speed_storeLastValid isAirborne_storeLastValid)
    then show "withinSpeedLimits (speed (gcar g'))" by (rule t)
  next
    assume "\<not> isAirborne (gcar g) \<and> \<not> keyUp inp \<and> keyDown inp \<and> speed (gcar g) \<le> maxSpeed"
    with assms(2) have "withinSpeedLimits (speed (updateSpeed inp dt (storeLastValid (gcar g))))"
      by (intro updateSpeed_reverse) (simp_all add: speed_storeLastValid isAirborne_storeLastValid)
    then show "withinSpeedLimits (speed (gcar g'))" by (rule t)
  }
qed

text \<open>
  Three ticks of a twentieth of a second: the tick of \<open>crowdNearEdge\<close>, on which the car
  arrives at full speed and is bounced at the boundary; a tick with forward input from the
  state in which \<open>boostRun\<close> ends, with speed \<open>59\<close>; a tick with reverse input at speed
  \<open>-36\<close>.
\<close>

lemma off_ramp_without_ramps: "ramps g = [] \<Longrightarrow> \<not> onRamp (gcar (driveCar inp dt g))"
  by (simp add: gcar_driveCar onRamp_no_ramps)

lemma boost_settled:
  "currentMultiplier (gboost (driveCar inp (1/20) (worldWith c (boostWith a False 1)))) = 1"
  by (simp add: gboost_driveCar worldWith_simps stepMultiplier_def updateBoost_def
      targetMultiplier_def boostWith_def setupSpeedBoost_def Let_def)

theorem tick_keeps_speed_limits_witness:
  "gameUpdate fixedEnv forwardKey (1/20) crowdNearEdge
     = Some (updateHumans fixedEnv (1/20) (crowdNearEdge\<lparr>gcar := edgeCarBounced\<rparr>))
   \<and> speed (gcar crowdNearEdge) = 40
   \<and> withinSpeedLimits
        (speed (gcar (updateHumans fixedEnv (1/20) (crowdNearEdge\<lparr>gcar := edgeCarBounced\<rparr>))))
   \<and> withinSpeedLimits
        (speed (gcar (driveCar forwardKey (1/20)
           (worldWith (carOnZ (213/4) (95/4) 59 59) (boostWith 75 False 1)))))
   \<and> withinSpeedLimits
        (speed (gcar (driveCar reverseKey (1/20)
           (worldWith (carOnZ 0 0 0 (- 36)) (boostWith 100 False 1)))))"
proof -
  note t = tick_keeps_speed_limits
  let ?A = "updateHumans fixedEnv (1/20) (crowdNearEdge\<lparr>gcar := edgeCarBounced\<rparr>)"
  let ?W = "worldWith (carOnZ (213/4) (95/4) 59 59) (boostWith 75 False 1)"
  let ?V = "worldWith (carOnZ 0 0 0 (- 36)) (boostWith 100 False 1)"
  have k: "keyUp forwardKey" "\<not> keyUp reverseKey" "keyDown reverseKey"
    by (simp_all add: forwardKey_def reverseKey_def)
  have a0: "speed (gcar crowdNearEdge) = 40"
    by (simp add: crowdNearEdge_def carNearEdge_def edgeCar_def)
  have a1: "withinSpeedLimits (speed (gcar crowdNearEdge))"
    unfolding a0 by (simp add: withinSpeedLimits_def maxSpeed_def)
  have a2: "currentMultiplier (gboost ?A) \<le> 1.01"
    by (simp add: gboost_updateHumans crowdNearEdge_def carNearEdge_def emptyWorld_def
        currentMultiplier_setup)
  have a3: "\<not> onRamp (gcar ?A)"
    by (simp add: gcar_updateHumans edgeCarBounced_def edgeCar_def newCar_def)
  have a4: "\<forall>obj \<in> set (physicsObjects crowdNearEdge). 0 \<le> mass obj"
    by (simp add: crowdNearEdge_def carNearEdge_def emptyWorld_def)
  have 1: "withinSpeedLimits (speed (gcar ?A))"
    using t [OF crowd_tick _ a2 a3 a4] a1 by simp
  have w: "\<not> isAirborne (gcar ?W)" "- maxSpeed / 2 \<le> speed (gcar ?W)"
    "\<forall>obj \<in> set (physicsObjects ?W). 0 \<le> mass obj"
    by (simp_all add: worldWith_simps carOnZ_simps maxSpeed_def)
  have 2: "withinSpeedLimits (speed (gcar (driveCar forwardKey (1/20) ?W)))"
    using t [OF frame_worldWith [of fixedEnv forwardKey "1/20"], of "carOnZ (213/4) (95/4) 59 59" "boostWith 75 False 1"]
      w k
    by (simp add: boost_settled off_ramp_without_ramps worldWith_simps)
  have v: "\<not> isAirborne (gcar ?V)" "speed (gcar ?V) \<le> maxSpeed"
    "\<forall>obj \<in> set (physicsObjects ?V). 0 \<le> mass obj"
    by (simp_all add: worldWith_simps carOnZ_simps maxSpeed_def)
  have 3: "withinSpeedLimits (speed (gcar (driveCar reverseKey (1/20) ?V)))"
    using t [OF frame_worldWith [of fixedEnv reverseKey "1/20"], of "carOnZ 0 0 0 (- 36)" "boostWith 100 False 1"]
      v k
    by (simp add: boost_settled off_ramp_without_ramps worldWith_simps)
  from crowd_tick [of fixedEnv] a0 1 2 3 show ?thesis by blast
qed

text \<open>
  The ticks left out do raise the speed.  The boost does so in the second frame of
  \<open>boostRun\<close>, above.  A launchpad under a car that reverses at \<open>-maxSpeed/2\<close>
  multiplies the speed by \<open>1.02\<close> and by \<open>1.05\<close>.
\<close>

lemma launchpad_raises_reverse_speed:
  "speed (checkRampInteractions [createLaunchpad 0 0] (newCar\<lparr>speed := - 20\<rparr>)) = - 1071 / 50
   \<and> withinSpeedLimits (- 20) \<and> \<not> withinSpeedLimits (- 1071 / 50)"
  by (simp add: checkRampInteractions_def createLaunchpad_def onLaunchpad_def rideLaunchpad_def
      newCar_def getSpeed_def withinSpeedLimits_def maxSpeed_def Vector3_def Let_def)

end
